theory Spec2Isabelle
  imports Main "HOL-Library.AList" "HOL-Library.Sublist"
begin

section \<open>The plugin manager of sublinkPro-plugins\<close>

text \<open>
  The development embeds \<^verbatim>\<open>interfaces.go\<close>, \<^verbatim>\<open>storage.go\<close> and \<^verbatim>\<open>manager.go\<close>.
  The manager keeps a Go map from plugin names to pointers to \<^verbatim>\<open>PluginInfo\<close>
  values. Pointers and map objects are shared in Go, so both live in an explicit store:
  every map object and every \<^verbatim>\<open>PluginInfo\<close> has an address, allocation takes the
  next unused address, and a field write changes the object at its address for everybody
  who holds that address.

  A Go map is kept as an association list; the order of the list stands for the order
  in which a \<^verbatim>\<open>range\<close> loop happens to visit the entries (Go leaves it open).
  A configuration (\<^verbatim>\<open>map[string]interface{}\<close>) is a reference too: \<open>None\<close> is the
  nil map, \<open>Some a\<close> the map object at address \<open>a\<close>, whose contents are \<open>cfgs w a\<close>.
  The manager hands these references to the plugin and to the storage, which may keep
  them and write to the maps, so every call into a plugin or into the storage comes with
  an effect on the contents of the configuration maps.
  The mutex of the manager is not modelled: every operation below is one critical
  section.
\<close>

subsection \<open>interfaces.go\<close>

type_synonym addr = nat
type_synonym err = string
type_synonym config = "addr option"
type_synonym 'v confheap = "addr \<Rightarrow> (string \<rightharpoonup> 'v)"
type_synonym EventType = string

definition EventAPISuccess :: EventType where "EventAPISuccess = ''api_success''"
definition EventAPIError :: EventType where "EventAPIError = ''api_error''"
definition EventAPIBefore :: EventType where "EventAPIBefore = ''api_before''"
definition EventAPIAfter :: EventType where "EventAPIAfter = ''api_after''"

text \<open>
  \<^verbatim>\<open>Plugin\<close> is an interface, and no implementation of it is part of the repository.
  An instance is therefore given by what its methods answer. \<^verbatim>\<open>Name\<close>, \<^verbatim>\<open>Version\<close>,
  \<^verbatim>\<open>Description\<close>, \<^verbatim>\<open>DefaultConfig\<close>, \<^verbatim>\<open>InterestedAPIs\<close> and \<^verbatim>\<open>InterestedEvents\<close>
  answer a fixed value (for \<^verbatim>\<open>DefaultConfig\<close> the reference to the map it returns).
  \<^verbatim>\<open>Init\<close> and \<^verbatim>\<open>Close\<close> answer \<open>None\<close> (nil) or an error, and the answer may depend
  on every call the instance has received so far. The instance records the calls
  \<^verbatim>\<open>DefaultConfig\<close>, \<^verbatim>\<open>SetConfig\<close>, \<^verbatim>\<open>Init\<close> and \<^verbatim>\<open>Close\<close> in the order in which they
  arrive. \<open>pEffect\<close> is what such a call does to the contents of the configuration maps,
  given the calls received before it: a \<^verbatim>\<open>SetConfig\<close> may copy the map it is handed,
  keep the reference, or merge into a map it already holds.
\<close>

datatype call = CDefaultConfig | CSetConfig config | CInit | CClose

record 'v plugin_instance =
  pName :: string
  pVersion :: string
  pDescription :: string
  pDefaultConfig :: config
  pInit :: "call list \<Rightarrow> err option"
  pClose :: "call list \<Rightarrow> err option"
  pInterestedAPIs :: "string list"
  pInterestedEvents :: "EventType list"
  pEffect :: "call list \<Rightarrow> call \<Rightarrow> 'v confheap \<Rightarrow> 'v confheap"
  calls :: "call list"

record PluginInfo =
  Name :: string
  Version :: string
  Description :: string
  FilePath :: string
  Enabled :: bool
  Config :: config
  Plugin :: addr

subsection \<open>storage.go\<close>

record PluginStorageInfo =
  sName :: string
  sPath :: string
  sEnabled :: bool
  sConfig :: string

text \<open>
  \<^verbatim>\<open>PluginStorage\<close> is an interface as well. An implementation is given by the answers
  of its two methods, which may depend on the calls it has received before.
  \<^verbatim>\<open>GetPlugin\<close> returns a pointer (\<open>None\<close> is nil) and an error (\<open>None\<close> is nil).
  \<open>sEffect\<close> is what a call does to the contents of the configuration maps.
\<close>

datatype scall = SGetPlugin string | SSavePlugin string string bool config

record 'v PluginStorage =
  GetPlugin_impl :: "scall list \<Rightarrow> string \<Rightarrow> PluginStorageInfo option \<times> err option"
  SavePlugin_impl :: "scall list \<Rightarrow> string \<Rightarrow> string \<Rightarrow> bool \<Rightarrow> config \<Rightarrow> err option"
  sEffect :: "scall list \<Rightarrow> scall \<Rightarrow> 'v confheap \<Rightarrow> 'v confheap"
  scalls :: "scall list"

definition DefaultStorage :: "'v PluginStorage" where
  "DefaultStorage =
     \<lparr>GetPlugin_impl = (\<lambda>_ _. (None, None)),
      SavePlugin_impl = (\<lambda>_ _ _ _ _. None),
      sEffect = (\<lambda>_ _ heap. heap),
      scalls = []\<rparr>"

subsection \<open>Errors, log lines and the state of the process\<close>

text \<open>
  Each \<^verbatim>\<open>fmt.Errorf\<close> of manager.go is one constructor; the argument is what the format
  string embeds (the message of the wrapped error, or the plugin name).
\<close>

datatype error =
    ErrOpen err
  | ErrLookup err
  | ErrSignature
  | ErrParseConfig err
  | ErrInitSkipped string
  | ErrNotExist string
  | ErrInit err
  | ErrSaveState err
  | ErrSaveConfig err
  | ErrMkdir err
  | ErrWalk err

text \<open>
  Each \<^verbatim>\<open>log.Printf\<close> is one constructor (the line printed with \<^verbatim>\<open>fmt.Printf\<close> when a
  module cannot be opened is \<open>OutOpenFailed\<close>). Lines 145 and 245 print the same text and
  share \<open>LogUpdateStateFailed\<close>.
\<close>

datatype logmsg =
    LogDirCreated string
  | LogLoadFailed string error
  | OutOpenFailed err
  | LogNotRegistered string
  | LogInitFailed string err
  | LogUpdateStateFailed err
  | LogSaveInfoFailed err
  | LogLoaded string string
  | LogCloseFailed string err
  | LogShutdownCloseFailed string err

text \<open>
  A goroutine started by \<^verbatim>\<open>TriggerEvent\<close>: the two arguments of the closure and the
  captured arguments of the call. The request context is a pointer and is kept as an
  address; the bodies are \<^verbatim>\<open>interface{}\<close> values.
\<close>

datatype 'v task = OnAPIEvent addr string addr EventType string int 'v 'v

record 'v world =
  gomaps :: "addr \<Rightarrow> (string \<times> addr) list"
  next_map :: addr
  infos :: "addr \<Rightarrow> PluginInfo"
  next_info :: addr
  cfgs :: "'v confheap"
  insts :: "addr \<Rightarrow> 'v plugin_instance"
  storage :: "'v PluginStorage"
  logs :: "logmsg list"
  goroutines :: "'v task list"
  plugins :: addr
  pluginDir :: string

text \<open>The fields \<open>plugins\<close> and \<open>pluginDir\<close> are those of the one \<^verbatim>\<open>Manager\<close>.\<close>

subsection \<open>Calls into a plugin instance and into the storage\<close>

definition record_call :: "addr \<Rightarrow> call \<Rightarrow> 'v world \<Rightarrow> 'v world" where
  "record_call p c w =
     w\<lparr>insts := (insts w)(p := (insts w p)\<lparr>calls := calls (insts w p) @ [c]\<rparr>),
       cfgs := pEffect (insts w p) (calls (insts w p)) c (cfgs w)\<rparr>"

definition plugin_DefaultConfig :: "addr \<Rightarrow> 'v world \<Rightarrow> config \<times> 'v world" where
  "plugin_DefaultConfig p w = (pDefaultConfig (insts w p), record_call p CDefaultConfig w)"

definition plugin_SetConfig :: "addr \<Rightarrow> config \<Rightarrow> 'v world \<Rightarrow> 'v world" where
  "plugin_SetConfig p c w = record_call p (CSetConfig c) w"

definition plugin_Init :: "addr \<Rightarrow> 'v world \<Rightarrow> err option \<times> 'v world" where
  "plugin_Init p w = (pInit (insts w p) (calls (insts w p)), record_call p CInit w)"

definition plugin_Close :: "addr \<Rightarrow> 'v world \<Rightarrow> err option \<times> 'v world" where
  "plugin_Close p w = (pClose (insts w p) (calls (insts w p)), record_call p CClose w)"

definition record_scall :: "scall \<Rightarrow> 'v world \<Rightarrow> 'v world" where
  "record_scall c w =
     w\<lparr>storage := (storage w)\<lparr>scalls := scalls (storage w) @ [c]\<rparr>,
       cfgs := sEffect (storage w) (scalls (storage w)) c (cfgs w)\<rparr>"

definition storage_GetPlugin ::
  "string \<Rightarrow> 'v world \<Rightarrow> (PluginStorageInfo option \<times> err option) \<times> 'v world" where
  "storage_GetPlugin path w =
     (GetPlugin_impl (storage w) (scalls (storage w)) path, record_scall (SGetPlugin path) w)"

definition storage_SavePlugin ::
  "string \<Rightarrow> string \<Rightarrow> bool \<Rightarrow> config \<Rightarrow> 'v world \<Rightarrow> err option \<times> 'v world" where
  "storage_SavePlugin name path enabled config w =
     (SavePlugin_impl (storage w) (scalls (storage w)) name path enabled config,
      record_scall (SSavePlugin name path enabled config) w)"

definition SetStorage :: "'v PluginStorage \<Rightarrow> 'v world \<Rightarrow> 'v world" where
  "SetStorage s w = w\<lparr>storage := s\<rparr>"

definition GetStorage :: "'v world \<Rightarrow> 'v PluginStorage" where
  "GetStorage w = storage w"

subsection \<open>The store\<close>

definition add_log :: "logmsg \<Rightarrow> 'v world \<Rightarrow> 'v world" where
  "add_log m w = w\<lparr>logs := logs w @ [m]\<rparr>"

definition make_map :: "'v world \<Rightarrow> addr \<times> 'v world" where
  "make_map w = (next_map w, w\<lparr>gomaps := (gomaps w)(next_map w := []), next_map := Suc (next_map w)\<rparr>)"

definition map_store :: "addr \<Rightarrow> string \<Rightarrow> addr \<Rightarrow> 'v world \<Rightarrow> 'v world" where
  "map_store m k v w = w\<lparr>gomaps := (gomaps w)(m := AList.update k v (gomaps w m))\<rparr>"

definition map_delete :: "addr \<Rightarrow> string \<Rightarrow> 'v world \<Rightarrow> 'v world" where
  "map_delete m k w = w\<lparr>gomaps := (gomaps w)(m := AList.delete k (gomaps w m))\<rparr>"

definition map_lookup :: "addr \<Rightarrow> string \<Rightarrow> 'v world \<Rightarrow> addr option" where
  "map_lookup m k w = map_of (gomaps w m) k"

definition new_PluginInfo :: "PluginInfo \<Rightarrow> 'v world \<Rightarrow> addr \<times> 'v world" where
  "new_PluginInfo r w =
     (next_info w, w\<lparr>infos := (infos w)(next_info w := r), next_info := Suc (next_info w)\<rparr>)"

definition set_Enabled :: "addr \<Rightarrow> bool \<Rightarrow> 'v world \<Rightarrow> 'v world" where
  "set_Enabled a b w = w\<lparr>infos := (infos w)(a := (infos w a)\<lparr>Enabled := b\<rparr>)\<rparr>"

definition set_Config :: "addr \<Rightarrow> config \<Rightarrow> 'v world \<Rightarrow> 'v world" where
  "set_Config a c w = w\<lparr>infos := (infos w)(a := (infos w a)\<lparr>Config := c\<rparr>)\<rparr>"

subsection \<open>manager.go\<close>

text \<open>
  \<^verbatim>\<open>GetManager\<close> builds the manager with a fresh, empty map. The rest of the process
  (the instances that exist, the storage in use) is given; no configuration map has
  contents yet.
\<close>

definition GetManager ::
  "(addr \<Rightarrow> 'v plugin_instance) \<Rightarrow> 'v PluginStorage \<Rightarrow> 'v world" where
  "GetManager is s =
     \<lparr>gomaps = (\<lambda>_. []), next_map = 1, infos = (\<lambda>_. \<lparr>Name = [], Version = [],
        Description = [], FilePath = [], Enabled = False, Config = None, Plugin = 0\<rparr>),
      next_info = 0, cfgs = (\<lambda>_. Map.empty), insts = is, storage = s, logs = [],
      goroutines = [], plugins = 0, pluginDir = ''./plugins''\<rparr>"

text \<open>
  The loader is Go's \<^verbatim>\<open>plugin\<close> package. What it does for a path is one of: the file
  cannot be opened; it has no symbol \<^verbatim>\<open>GetPlugin\<close>; the symbol is not a
  \<^verbatim>\<open>func() Plugin\<close>; or calling it gives the instance at an address.
  \<^verbatim>\<open>json.Unmarshal\<close> into the nil configuration gives an error, or leaves the
  configuration nil (the JSON value \<^verbatim>\<open>null\<close>), or makes a new map: the decoder answers
  the address of the new map and its contents. Both are parameters of \<open>loadPlugin\<close>.
\<close>

datatype load_result = OpenError err | LookupError err | WrongSignature | GetPluginFn addr

definition store_config ::
  "(addr \<times> (string \<rightharpoonup> 'v)) option \<Rightarrow> 'v world \<Rightarrow> config \<times> 'v world" where
  "store_config decoded w =
     (case decoded of
        None \<Rightarrow> (None, w)
      | Some (a, m) \<Rightarrow> (Some a, w\<lparr>cfgs := (cfgs w)(a := m)\<rparr>))"

text \<open>Lines 104 to 121: the configuration and the flag a module starts with.\<close>

definition resolve_config ::
  "(string \<Rightarrow> err + (addr \<times> (string \<rightharpoonup> 'v)) option) \<Rightarrow> PluginStorageInfo option \<Rightarrow> addr \<Rightarrow> 'v world
     \<Rightarrow> (err + (config \<times> bool)) \<times> 'v world" where
  "resolve_config json_Unmarshal pluginDB pluginInstance w =
     (case pluginDB of
        Some db \<Rightarrow>
          (if sConfig db \<noteq> [] then
             (case json_Unmarshal (sConfig db) of
                Inl e \<Rightarrow> (Inl e, w)
              | Inr decoded \<Rightarrow>
                  (case store_config decoded w of
                     (config, w1) \<Rightarrow> (Inr (config, sEnabled db), w1)))
           else (Inr (None, sEnabled db), w))
      | None \<Rightarrow>
          (case plugin_DefaultConfig pluginInstance w of
             (config, w1) \<Rightarrow> (Inr (config, False), w1)))"

text \<open>Lines 153 to 162: enter the record into the map and write it to the storage.\<close>

definition store_plugin :: "string \<Rightarrow> addr \<Rightarrow> 'v world \<Rightarrow> error option \<times> 'v world" where
  "store_plugin pluginPath info w =
     (let w1 = map_store (plugins w) (Name (infos w info)) info w in
      case storage_SavePlugin (Name (infos w1 info)) pluginPath
             (Enabled (infos w1 info)) (Config (infos w1 info)) w1 of
        (serr, w2) \<Rightarrow>
          (let w3 = (case serr of Some e \<Rightarrow> add_log (LogSaveInfoFailed e) w2 | None \<Rightarrow> w2);
               w4 = add_log (LogLoaded (Name (infos w3 info)) (Version (infos w3 info))) w3
           in (None, w4)))"

text \<open>Lines 123 to 162: apply the configuration, build the record, initialise, store.\<close>

definition install_plugin ::
  "string \<Rightarrow> addr \<Rightarrow> config \<Rightarrow> bool \<Rightarrow> 'v world \<Rightarrow> error option \<times> 'v world" where
  "install_plugin pluginPath pluginInstance config enable w =
     (let w1 = plugin_SetConfig pluginInstance config w in
      case new_PluginInfo
             \<lparr>Name = pName (insts w1 pluginInstance),
              Version = pVersion (insts w1 pluginInstance),
              Description = pDescription (insts w1 pluginInstance),
              FilePath = pluginPath, Enabled = enable, Config = config,
              Plugin = pluginInstance\<rparr> w1 of
        (info, w2) \<Rightarrow>
          if Enabled (infos w2 info) then
            (case plugin_Init pluginInstance w2 of
               (Some e, w3) \<Rightarrow>
                 (let w4 = add_log (LogInitFailed (Name (infos w3 info)) e) w3;
                      w5 = set_Enabled info False w4
                  in case storage_SavePlugin (Name (infos w5 info)) pluginPath False
                            (Config (infos w5 info)) w5 of
                       (serr, w6) \<Rightarrow>
                         (let w7 = (case serr of
                                      Some e' \<Rightarrow> add_log (LogUpdateStateFailed e') w6
                                    | None \<Rightarrow> w6)
                          in (Some (ErrInitSkipped (Name (infos w7 info))), w7)))
             | (None, w3) \<Rightarrow> store_plugin pluginPath info w3)
          else store_plugin pluginPath info w2)"

definition loadPlugin ::
  "(string \<Rightarrow> load_result) \<Rightarrow> (string \<Rightarrow> err + (addr \<times> (string \<rightharpoonup> 'v)) option) \<Rightarrow> string \<Rightarrow> 'v world
     \<Rightarrow> error option \<times> 'v world" where
  "loadPlugin plugin_Open json_Unmarshal pluginPath w =
     (case plugin_Open pluginPath of
        OpenError e \<Rightarrow> (Some (ErrOpen e), add_log (OutOpenFailed e) w)
      | LookupError e \<Rightarrow> (Some (ErrLookup e), w)
      | WrongSignature \<Rightarrow> (Some ErrSignature, w)
      | GetPluginFn pluginInstance \<Rightarrow>
          (case storage_GetPlugin pluginPath w of
             ((pluginDB, _), w1) \<Rightarrow>
               (let w2 = (if pluginDB = None then add_log (LogNotRegistered pluginPath) w1
                          else w1)
                in case resolve_config json_Unmarshal pluginDB pluginInstance w2 of
                     (Inl e, w3) \<Rightarrow> (Some (ErrParseConfig e), w3)
                   | (Inr (config, enable), w3) \<Rightarrow>
                       install_plugin pluginPath pluginInstance config enable w3)))"




definition GetPlugin :: "string \<Rightarrow> 'v world \<Rightarrow> addr option" where
  "GetPlugin name w = map_lookup (plugins w) name w"

text \<open>\<^verbatim>\<open>GetAllPlugins\<close>: a new map object, filled by the loop over the manager's map.\<close>

fun copy_entries :: "addr \<Rightarrow> (string \<times> addr) list \<Rightarrow> 'v world \<Rightarrow> 'v world" where
  "copy_entries result [] w = w"
| "copy_entries result ((k, v) # rest) w = copy_entries result rest (map_store result k v w)"

definition GetAllPlugins :: "'v world \<Rightarrow> addr \<times> 'v world" where
  "GetAllPlugins w =
     (case make_map w of
        (result, w1) \<Rightarrow> (result, copy_entries result (gomaps w1 (plugins w1)) w1))"

definition EnablePlugin :: "string \<Rightarrow> 'v world \<Rightarrow> error option \<times> 'v world" where
  "EnablePlugin name w =
     (case map_lookup (plugins w) name w of
        None \<Rightarrow> (Some (ErrNotExist name), w)
      | Some plugin \<Rightarrow>
          if Enabled (infos w plugin) then (None, w)
          else
            (case plugin_Init (Plugin (infos w plugin)) w of
               (Some e, w1) \<Rightarrow> (Some (ErrInit e), w1)
             | (None, w1) \<Rightarrow>
                 (let w2 = set_Enabled plugin True w1 in
                  case storage_SavePlugin (Name (infos w2 plugin)) (FilePath (infos w2 plugin))
                         True (Config (infos w2 plugin)) w2 of
                    (Some e, w3) \<Rightarrow>
                      (let w4 = set_Enabled plugin False w3 in
                       case plugin_Close (Plugin (infos w4 plugin)) w4 of
                         (_, w5) \<Rightarrow> (Some (ErrSaveState e), w5))
                  | (None, w3) \<Rightarrow> (None, w3))))"

definition DisablePlugin :: "string \<Rightarrow> 'v world \<Rightarrow> error option \<times> 'v world" where
  "DisablePlugin name w =
     (case map_lookup (plugins w) name w of
        None \<Rightarrow> (Some (ErrNotExist name), w)
      | Some plugin \<Rightarrow>
          if \<not> Enabled (infos w plugin) then (None, w)
          else
            (case plugin_Close (Plugin (infos w plugin)) w of
               (cerr, w1) \<Rightarrow>
                 (let w2 = (case cerr of
                              Some e \<Rightarrow> add_log (LogCloseFailed name e) w1
                            | None \<Rightarrow> w1);
                      w3 = set_Enabled plugin False w2
                  in case storage_SavePlugin (Name (infos w3 plugin)) (FilePath (infos w3 plugin))
                            False (Config (infos w3 plugin)) w3 of
                       (serr, w4) \<Rightarrow>
                         (None, (case serr of
                                   Some e \<Rightarrow> add_log (LogUpdateStateFailed e) w4
                                 | None \<Rightarrow> w4)))))"

definition UpdatePluginConfig ::
  "string \<Rightarrow> config \<Rightarrow> 'v world \<Rightarrow> error option \<times> 'v world" where
  "UpdatePluginConfig name config w =
     (case map_lookup (plugins w) name w of
        None \<Rightarrow> (Some (ErrNotExist name), w)
      | Some plugin \<Rightarrow>
          (let oldConfig = Config (infos w plugin);
               w1 = set_Config plugin config w;
               w2 = plugin_SetConfig (Plugin (infos w1 plugin)) config w1
           in case storage_SavePlugin (Name (infos w2 plugin)) (FilePath (infos w2 plugin))
                     (Enabled (infos w2 plugin)) config w2 of
                (Some e, w3) \<Rightarrow>
                  (let w4 = set_Config plugin oldConfig w3;
                       w5 = plugin_SetConfig (Plugin (infos w4 plugin)) oldConfig w4
                   in (Some (ErrSaveConfig e), w5))
              | (None, w3) \<Rightarrow> (None, w3)))"

text \<open>
  \<^verbatim>\<open>TriggerEvent\<close>. \<^verbatim>\<open>strings.HasPrefix\<close> compares the first bytes of the path with
  the prefix. The two inner loops stop at the first match.
\<close>

definition HasPrefix :: "string \<Rightarrow> string \<Rightarrow> bool" where
  "HasPrefix s pre = (length pre \<le> length s \<and> take (length pre) s = pre)"

fun eventInterested :: "EventType list \<Rightarrow> EventType \<Rightarrow> bool" where
  "eventInterested [] event = False"
| "eventInterested (interestedEvent # rest) event =
     (if interestedEvent = event then True else eventInterested rest event)"

fun apiInterested :: "string list \<Rightarrow> string \<Rightarrow> bool" where
  "apiInterested [] path = False"
| "apiInterested (interestedAPI # rest) path =
     (if HasPrefix path interestedAPI then True else apiInterested rest path)"

definition spawn :: "'v task \<Rightarrow> 'v world \<Rightarrow> 'v world" where
  "spawn t w = w\<lparr>goroutines := goroutines w @ [t]\<rparr>"

fun trigger_loop :: "(string \<times> addr) list \<Rightarrow> addr \<Rightarrow> EventType \<Rightarrow> string \<Rightarrow> int \<Rightarrow> 'v \<Rightarrow> 'v
     \<Rightarrow> 'v world \<Rightarrow> 'v world" where
  "trigger_loop [] ctx event path statusCode requestBody responseBody w = w"
| "trigger_loop ((k, pluginInfo) # rest) ctx event path statusCode requestBody responseBody w =
     (if \<not> Enabled (infos w pluginInfo) then
        trigger_loop rest ctx event path statusCode requestBody responseBody w
      else if \<not> eventInterested (pInterestedEvents (insts w (Plugin (infos w pluginInfo)))) event then
        trigger_loop rest ctx event path statusCode requestBody responseBody w
      else if \<not> apiInterested (pInterestedAPIs (insts w (Plugin (infos w pluginInfo)))) path then
        trigger_loop rest ctx event path statusCode requestBody responseBody w
      else
        trigger_loop rest ctx event path statusCode requestBody responseBody
          (spawn (OnAPIEvent (Plugin (infos w pluginInfo)) (Name (infos w pluginInfo))
                    ctx event path statusCode requestBody responseBody) w))"

definition TriggerEvent ::
  "addr \<Rightarrow> EventType \<Rightarrow> string \<Rightarrow> int \<Rightarrow> 'v \<Rightarrow> 'v \<Rightarrow> 'v world \<Rightarrow> 'v world" where
  "TriggerEvent ctx event path statusCode requestBody responseBody w =
     trigger_loop (gomaps w (plugins w)) ctx event path statusCode requestBody responseBody w"

text \<open>\<^verbatim>\<open>Shutdown\<close>: close every instance, then give the manager a new, empty map.\<close>

fun shutdown_loop :: "(string \<times> addr) list \<Rightarrow> 'v world \<Rightarrow> 'v world" where
  "shutdown_loop [] w = w"
| "shutdown_loop ((k, pluginInfo) # rest) w =
     (case plugin_Close (Plugin (infos w pluginInfo)) w of
        (Some e, w1) \<Rightarrow>
          shutdown_loop rest (add_log (LogShutdownCloseFailed (Name (infos w1 pluginInfo)) e) w1)
      | (None, w1) \<Rightarrow> shutdown_loop rest w1)"

definition Shutdown :: "'v world \<Rightarrow> 'v world" where
  "Shutdown w =
     (let w1 = shutdown_loop (gomaps w (plugins w)) w in
      case make_map w1 of (m, w2) \<Rightarrow> w2\<lparr>plugins := m\<rparr>)"

subsection \<open>The state a completed load leaves\<close>

text \<open>
  When \<open>loadPlugin\<close> reaches line 162 it has applied configuration \<open>c\<close>, called
  \<^verbatim>\<open>Init\<close> if the flag \<open>en\<close> was set, allocated the record, entered it into the map
  under the declared name, written it to the storage and logged the outcome; the
  configuration maps hold what these calls left in them. \<open>loaded\<close> writes that state
  out in one piece; \<open>loadPlugin_absent\<close> and \<open>loadPlugin_present\<close>
  below prove that the code produces it.
\<close>

definition loaded :: "string \<Rightarrow> addr \<Rightarrow> config \<Rightarrow> bool \<Rightarrow> 'v world \<Rightarrow> 'v world" where
  "loaded pluginPath p c en w =
     w\<lparr>gomaps := (gomaps w)(plugins w :=
          AList.update (pName (insts w p)) (next_info w) (gomaps w (plugins w))),
       infos := (infos w)(next_info w :=
          \<lparr>Name = pName (insts w p), Version = pVersion (insts w p),
           Description = pDescription (insts w p), FilePath = pluginPath,
           Enabled = en, Config = c, Plugin = p\<rparr>),
       next_info := Suc (next_info w),
       insts := (insts w)(p := (insts w p)
          \<lparr>calls := calls (insts w p) @ CSetConfig c # (if en then [CInit] else [])\<rparr>),
       storage := (storage w)\<lparr>scalls := scalls (storage w)
          @ [SSavePlugin (pName (insts w p)) pluginPath en c]\<rparr>,
       cfgs := sEffect (storage w) (scalls (storage w))
                 (SSavePlugin (pName (insts w p)) pluginPath en c)
                 ((if en then pEffect (insts w p) (calls (insts w p) @ [CSetConfig c]) CInit
                   else (\<lambda>heap. heap))
                    (pEffect (insts w p) (calls (insts w p)) (CSetConfig c) (cfgs w))),
       logs := logs w
          @ (case SavePlugin_impl (storage w) (scalls (storage w)) (pName (insts w p))
                    pluginPath en c of
               Some e \<Rightarrow> [LogSaveInfoFailed e] | None \<Rightarrow> [])
          @ [LogLoaded (pName (insts w p)) (pVersion (insts w p))]\<rparr>"

subsection \<open>Example processes\<close>

text \<open>
  A plugin whose \<^verbatim>\<open>Init\<close> succeeds and whose \<^verbatim>\<open>Close\<close> fails, and one whose
  \<^verbatim>\<open>Init\<close> fails. Configuration values are numbers here. \<^verbatim>\<open>DefaultConfig\<close> builds
  the map at address 5; no other call of these two plugins writes to a map. A third
  plugin keeps its settings in the map at address 5 and has \<^verbatim>\<open>SetConfig\<close> merge the
  entries of the map it is handed into that map.
\<close>

definition demo_plugin :: "nat plugin_instance" where
  "demo_plugin =
     \<lparr>pName = ''demo'', pVersion = ''1.0'', pDescription = ''request counter'',
      pDefaultConfig = Some 5,
      pInit = (\<lambda>h. None), pClose = (\<lambda>h. Some ''close failed''),
      pInterestedAPIs = [''/v1/users''], pInterestedEvents = [''api_before''],
      pEffect = (\<lambda>h c heap. if c = CDefaultConfig then heap(5 := [''level'' \<mapsto> 1])
                              else heap),
      calls = []\<rparr>"

definition broken_plugin :: "nat plugin_instance" where
  "broken_plugin = demo_plugin\<lparr>pInit := (\<lambda>h. Some ''no licence'')\<rparr>"


definition demo_open :: "string \<Rightarrow> load_result" where
  "demo_open path =
     (if path = ''plugins/demo.so'' then GetPluginFn 7 else OpenError ''no such file'')"

text \<open>A decoder that accepts the empty object only; like Go's, it rejects the empty string.\<close>

definition demo_json :: "string \<Rightarrow> err + (addr \<times> (string \<rightharpoonup> nat)) option" where
  "demo_json s =
     (if s = ''{}'' then Inr (Some (9, Map.empty)) else Inl ''unexpected end of JSON input'')"

text \<open>
  Storages: one that knows nothing and cannot write; one that holds an enabled record
  with an empty configuration string and cannot write; one that answers a read with that
  record and an error at once; one whose reads fail with no record; one that holds
  a disabled record with an empty configuration string; one whose record holds a
  configuration string that does not parse.
\<close>

definition failing_storage :: "nat PluginStorage" where
  "failing_storage =
     \<lparr>GetPlugin_impl = (\<lambda>h path. (None, None)),
      SavePlugin_impl = (\<lambda>h name path enabled config. Some ''disk full''),
      sEffect = (\<lambda>h c heap. heap),
      scalls = []\<rparr>"

definition stale_storage :: "nat PluginStorage" where
  "stale_storage =
     \<lparr>GetPlugin_impl = (\<lambda>h path. (Some \<lparr>sName = ''demo'', sPath = path, sEnabled = True,
                                        sConfig = []\<rparr>, None)),
      SavePlugin_impl = (\<lambda>h name path enabled config. Some ''disk full''),
      sEffect = (\<lambda>h c heap. heap),
      scalls = []\<rparr>"



definition blank_storage :: "nat PluginStorage" where
  "blank_storage =
     \<lparr>GetPlugin_impl = (\<lambda>h path. (Some \<lparr>sName = ''demo'', sPath = path, sEnabled = False,
                                        sConfig = []\<rparr>, None)),
      SavePlugin_impl = (\<lambda>h name path enabled config. None),
      sEffect = (\<lambda>h c heap. heap),
      scalls = []\<rparr>"

definition corrupt_storage :: "nat PluginStorage" where
  "corrupt_storage =
     \<lparr>GetPlugin_impl = (\<lambda>h path. (Some \<lparr>sName = ''demo'', sPath = path, sEnabled = False,
                                        sConfig = ''{bad''\<rparr>, None)),
      SavePlugin_impl = (\<lambda>h name path enabled config. None),
      sEffect = (\<lambda>h c heap. heap),
      scalls = []\<rparr>"

text \<open>
  A process right after \<^verbatim>\<open>GetManager\<close>, and one in which the demo plugin is
  registered at record address 0 with the flag \<open>en\<close> and the configuration map at
  address 5 (\<open>level\<close> is 1); a second map, at address 6, has \<open>level\<close> 9. The last
  process runs the merging plugin on a storage that cannot write.
\<close>

definition fresh_world :: "nat plugin_instance \<Rightarrow> nat PluginStorage \<Rightarrow> nat world" where
  "fresh_world inst st = GetManager (\<lambda>a. inst) st"

definition running_world :: "bool \<Rightarrow> nat PluginStorage \<Rightarrow> nat world" where
  "running_world en st =
     \<lparr>gomaps = (\<lambda>a. if a = 0 then [(''demo'', 0)] else []), next_map = 1,
      infos = (\<lambda>a. \<lparr>Name = ''demo'', Version = ''1.0'', Description = ''request counter'',
                      FilePath = ''plugins/demo.so'', Enabled = en,
                      Config = Some 5, Plugin = 7\<rparr>),
      next_info = 1,
      cfgs = (\<lambda>a. if a = 5 then [''level'' \<mapsto> 1]
                  else if a = 6 then [''level'' \<mapsto> 9] else Map.empty),
      insts = (\<lambda>a. demo_plugin), storage = st, logs = [], goroutines = [],
      plugins = 0, pluginDir = ''./plugins''\<rparr>"


subsection \<open>Dispatch as the specification words it\<close>

text \<open>
  The specification of the dispatcher, in its own words: a record is notified when it is
  enabled, the event type is among the interested events of its module, and some
  interested prefix of the module is a prefix of the path. \<open>handler\<close> is the unit of work
  started for such a record. \<open>TriggerEvent\<close> above is the code; \<open>interested\<close> is what it
  is compared with.
\<close>

definition interested :: "'v world \<Rightarrow> addr \<Rightarrow> EventType \<Rightarrow> string \<Rightarrow> bool" where
  "interested w info event path =
     (Enabled (infos w info)
      \<and> event \<in> set (pInterestedEvents (insts w (Plugin (infos w info))))
      \<and> (\<exists>api \<in> set (pInterestedAPIs (insts w (Plugin (infos w info)))). prefix api path))"

definition handler ::
  "'v world \<Rightarrow> addr \<Rightarrow> EventType \<Rightarrow> string \<Rightarrow> int \<Rightarrow> 'v \<Rightarrow> 'v \<Rightarrow> addr \<Rightarrow> 'v task" where
  "handler w ctx event path statusCode requestBody responseBody info =
     OnAPIEvent (Plugin (infos w info)) (Name (infos w info)) ctx event path statusCode
       requestBody responseBody"

text \<open>The running process with a module that declares no interesting path.\<close>

definition mute_world :: "nat world" where
  "mute_world =
     (running_world True DefaultStorage)
       \<lparr>insts := (\<lambda>a. demo_plugin\<lparr>pInterestedAPIs := []\<rparr>)\<rparr>"

section \<open>Properties\<close>

subsection \<open>What a load does, path by path\<close>

lemma store_config_None [simp]: "store_config None w = (None, w)"
  by (simp add: store_config_def)

lemma store_config_frame:
  assumes "store_config d w = (c, w1)"
  shows "plugins w1 = plugins w" "next_map w1 = next_map w" "gomaps w1 = gomaps w"
    "infos w1 = infos w" "next_info w1 = next_info w" "insts w1 = insts w"
    "storage w1 = storage w" "logs w1 = logs w"
  using assms by (auto simp: store_config_def split: option.splits prod.splits)

lemmas call_defs = storage_GetPlugin_def storage_SavePlugin_def record_scall_def record_call_def
  plugin_DefaultConfig_def plugin_SetConfig_def plugin_Init_def plugin_Close_def
  add_log_def make_map_def map_store_def map_lookup_def new_PluginInfo_def set_Enabled_def
  set_Config_def

lemma install_plugin_stored:
  assumes "en \<longrightarrow> pInit (insts w p) (calls (insts w p) @ [CSetConfig c]) = None"
  shows "install_plugin pluginPath p c en w = (None, loaded pluginPath p c en w)"
  using assms
  by (cases en)
    (simp_all add: install_plugin_def store_plugin_def call_defs loaded_def Let_def
       split: option.splits)

lemma install_plugin_init_failed:
  assumes "pInit (insts w p) (calls (insts w p) @ [CSetConfig c]) = Some e"
  shows "fst (install_plugin pluginPath p c True w) = Some (ErrInitSkipped (pName (insts w p)))"
    and "gomaps (snd (install_plugin pluginPath p c True w)) = gomaps w"
    and "plugins (snd (install_plugin pluginPath p c True w)) = plugins w"
    and "calls (insts (snd (install_plugin pluginPath p c True w)) p)
           = calls (insts w p) @ [CSetConfig c, CInit]"
    and "infos (snd (install_plugin pluginPath p c True w))
           = (infos w)(next_info w :=
                \<lparr>Name = pName (insts w p), Version = pVersion (insts w p),
                 Description = pDescription (insts w p), FilePath = pluginPath,
                 Enabled = False, Config = c, Plugin = p\<rparr>)"
  using assms
  by (simp_all add: install_plugin_def store_plugin_def call_defs Let_def split: option.splits)

lemma loadPlugin_absent:
  assumes "plugin_Open pluginPath = GetPluginFn p"
    and "fst (GetPlugin_impl (storage w) (scalls (storage w)) pluginPath) = None"
  shows "loadPlugin plugin_Open json_Unmarshal pluginPath w =
           (None, loaded pluginPath p (pDefaultConfig (insts w p)) False
                    (record_call p CDefaultConfig
                       (add_log (LogNotRegistered pluginPath)
                          (record_scall (SGetPlugin pluginPath) w))))"
proof -
  obtain ge where g: "GetPlugin_impl (storage w) (scalls (storage w)) pluginPath = (None, ge)"
    using assms(2) by (cases "GetPlugin_impl (storage w) (scalls (storage w)) pluginPath") simp
  show ?thesis
    using assms(1) g
    by (simp add: loadPlugin_def resolve_config_def storage_GetPlugin_def
          plugin_DefaultConfig_def install_plugin_stored)
      (simp add: call_defs)
qed

lemma loadPlugin_resolved:
  assumes "plugin_Open pluginPath = GetPluginFn p"
    and "fst (GetPlugin_impl (storage w) (scalls (storage w)) pluginPath) = Some r"
    and "if sConfig r \<noteq> [] then json_Unmarshal (sConfig r) = Inr d else d = None"
    and "store_config d (record_scall (SGetPlugin pluginPath) w) = (c, w1)"
  shows "loadPlugin plugin_Open json_Unmarshal pluginPath w
           = install_plugin pluginPath p c (sEnabled r) w1"
proof -
  obtain ge where g: "GetPlugin_impl (storage w) (scalls (storage w)) pluginPath = (Some r, ge)"
    using assms(2) by (cases "GetPlugin_impl (storage w) (scalls (storage w)) pluginPath") simp
  show ?thesis
    using assms(1,3,4) g
    by (simp add: loadPlugin_def resolve_config_def storage_GetPlugin_def split: if_splits)
qed

lemma loadPlugin_present:
  assumes "plugin_Open pluginPath = GetPluginFn p"
    and "fst (GetPlugin_impl (storage w) (scalls (storage w)) pluginPath) = Some r"
    and "if sConfig r \<noteq> [] then json_Unmarshal (sConfig r) = Inr d else d = None"
    and "store_config d (record_scall (SGetPlugin pluginPath) w) = (c, w1)"
    and "sEnabled r \<longrightarrow> pInit (insts w p) (calls (insts w p) @ [CSetConfig c]) = None"
  shows "loadPlugin plugin_Open json_Unmarshal pluginPath w =
           (None, loaded pluginPath p c (sEnabled r) w1)"
proof -
  have i: "sEnabled r \<longrightarrow> pInit (insts w1 p) (calls (insts w1 p) @ [CSetConfig c]) = None"
    using assms(5) store_config_frame(6) [OF assms(4)] by (simp add: record_scall_def)
  show ?thesis
    using loadPlugin_resolved [where plugin_Open = plugin_Open
        and json_Unmarshal = json_Unmarshal, OF assms(1-4)]
      install_plugin_stored [OF i, of pluginPath]
    by simp
qed

lemma loadPlugin_present_nil:
  assumes "plugin_Open pluginPath = GetPluginFn p"
    and "fst (GetPlugin_impl (storage w) (scalls (storage w)) pluginPath) = Some r"
    and "sConfig r \<noteq> [] \<longrightarrow> json_Unmarshal (sConfig r) = Inr None"
    and "sEnabled r \<longrightarrow> pInit (insts w p) (calls (insts w p) @ [CSetConfig None]) = None"
  shows "loadPlugin plugin_Open json_Unmarshal pluginPath w =
           (None, loaded pluginPath p None (sEnabled r)
                    (record_scall (SGetPlugin pluginPath) w))"
proof -
  have d: "if sConfig r \<noteq> [] then json_Unmarshal (sConfig r) = Inr None
           else (None :: (addr \<times> (string \<rightharpoonup> 'a)) option) = None"
    using assms(3) by simp
  have s: "store_config None (record_scall (SGetPlugin pluginPath) w)
             = (None, record_scall (SGetPlugin pluginPath) w)"
    by simp
  show ?thesis
    by (rule loadPlugin_present [where plugin_Open = plugin_Open
          and json_Unmarshal = json_Unmarshal, OF assms(1,2) d s assms(4)])
qed

lemma loadPlugin_init_failed:
  assumes "plugin_Open pluginPath = GetPluginFn p"
    and "fst (GetPlugin_impl (storage w) (scalls (storage w)) pluginPath) = Some r"
    and "if sConfig r \<noteq> [] then json_Unmarshal (sConfig r) = Inr d else d = None"
    and "store_config d (record_scall (SGetPlugin pluginPath) w) = (c, w1)"
    and "sEnabled r"
    and "pInit (insts w p) (calls (insts w p) @ [CSetConfig c]) = Some e"
  shows "fst (loadPlugin plugin_Open json_Unmarshal pluginPath w)
           = Some (ErrInitSkipped (pName (insts w p)))"
    and "gomaps (snd (loadPlugin plugin_Open json_Unmarshal pluginPath w)) = gomaps w"
    and "plugins (snd (loadPlugin plugin_Open json_Unmarshal pluginPath w)) = plugins w"
    and "calls (insts (snd (loadPlugin plugin_Open json_Unmarshal pluginPath w)) p)
           = calls (insts w p) @ [CSetConfig c, CInit]"
    and "infos (snd (loadPlugin plugin_Open json_Unmarshal pluginPath w))
           = (infos w)(next_info w :=
                \<lparr>Name = pName (insts w p), Version = pVersion (insts w p),
                 Description = pDescription (insts w p), FilePath = pluginPath,
                 Enabled = False, Config = c, Plugin = p\<rparr>)"
proof -
  note f = store_config_frame [OF assms(4)]
  have i: "pInit (insts w1 p) (calls (insts w1 p) @ [CSetConfig c]) = Some e"
    using assms(6) f(6) by (simp add: record_scall_def)
  have l: "loadPlugin plugin_Open json_Unmarshal pluginPath w
             = install_plugin pluginPath p c True w1"
    using loadPlugin_resolved [where plugin_Open = plugin_Open
        and json_Unmarshal = json_Unmarshal, OF assms(1-4)] assms(5)
    by simp
  show "fst (loadPlugin plugin_Open json_Unmarshal pluginPath w)
           = Some (ErrInitSkipped (pName (insts w p)))"
    using install_plugin_init_failed(1) [OF i, of pluginPath] l f
    by (simp add: record_scall_def)
  show "gomaps (snd (loadPlugin plugin_Open json_Unmarshal pluginPath w)) = gomaps w"
    using install_plugin_init_failed(2) [OF i, of pluginPath] l f
    by (simp add: record_scall_def)
  show "plugins (snd (loadPlugin plugin_Open json_Unmarshal pluginPath w)) = plugins w"
    using install_plugin_init_failed(3) [OF i, of pluginPath] l f
    by (simp add: record_scall_def)
  show "calls (insts (snd (loadPlugin plugin_Open json_Unmarshal pluginPath w)) p)
           = calls (insts w p) @ [CSetConfig c, CInit]"
    using install_plugin_init_failed(4) [OF i, of pluginPath] l f
    by (simp add: record_scall_def)
  show "infos (snd (loadPlugin plugin_Open json_Unmarshal pluginPath w))
           = (infos w)(next_info w :=
                \<lparr>Name = pName (insts w p), Version = pVersion (insts w p),
                 Description = pDescription (insts w p), FilePath = pluginPath,
                 Enabled = False, Config = c, Plugin = p\<rparr>)"
    using install_plugin_init_failed(5) [OF i, of pluginPath] l f
    by (simp add: record_scall_def)
qed

lemma loadPlugin_init_failed_nil:
  assumes "plugin_Open pluginPath = GetPluginFn p"
    and "fst (GetPlugin_impl (storage w) (scalls (storage w)) pluginPath) = Some r"
    and "sConfig r \<noteq> [] \<longrightarrow> json_Unmarshal (sConfig r) = Inr None"
    and "sEnabled r"
    and "pInit (insts w p) (calls (insts w p) @ [CSetConfig None]) = Some e"
  shows "fst (loadPlugin plugin_Open json_Unmarshal pluginPath w)
           = Some (ErrInitSkipped (pName (insts w p)))"
    and "gomaps (snd (loadPlugin plugin_Open json_Unmarshal pluginPath w)) = gomaps w"
    and "plugins (snd (loadPlugin plugin_Open json_Unmarshal pluginPath w)) = plugins w"
    and "calls (insts (snd (loadPlugin plugin_Open json_Unmarshal pluginPath w)) p)
           = calls (insts w p) @ [CSetConfig None, CInit]"
proof -
  have d: "if sConfig r \<noteq> [] then json_Unmarshal (sConfig r) = Inr None
           else (None :: (addr \<times> (string \<rightharpoonup> 'a)) option) = None"
    using assms(3) by simp
  have s: "store_config None (record_scall (SGetPlugin pluginPath) w)
             = (None, record_scall (SGetPlugin pluginPath) w)"
    by simp
  note f = loadPlugin_init_failed [where plugin_Open = plugin_Open
      and json_Unmarshal = json_Unmarshal, OF assms(1,2) d s assms(4,5)]
  show "fst (loadPlugin plugin_Open json_Unmarshal pluginPath w)
           = Some (ErrInitSkipped (pName (insts w p)))"
    by (rule f(1))
  show "gomaps (snd (loadPlugin plugin_Open json_Unmarshal pluginPath w)) = gomaps w"
    by (rule f(2))
  show "plugins (snd (loadPlugin plugin_Open json_Unmarshal pluginPath w)) = plugins w"
    by (rule f(3))
  show "calls (insts (snd (loadPlugin plugin_Open json_Unmarshal pluginPath w)) p)
           = calls (insts w p) @ [CSetConfig None, CInit]"
    by (rule f(4))
qed

lemma loadPlugin_parse_failed:
  assumes "plugin_Open pluginPath = GetPluginFn p"
    and "fst (GetPlugin_impl (storage w) (scalls (storage w)) pluginPath) = Some r"
    and "sConfig r \<noteq> []"
    and "json_Unmarshal (sConfig r) = Inl e"
  shows "loadPlugin plugin_Open json_Unmarshal pluginPath w
           = (Some (ErrParseConfig e), record_scall (SGetPlugin pluginPath) w)"
proof -
  obtain ge where g: "GetPlugin_impl (storage w) (scalls (storage w)) pluginPath = (Some r, ge)"
    using assms(2) by (cases "GetPlugin_impl (storage w) (scalls (storage w)) pluginPath") simp
  show ?thesis
    using assms(1,3,4) g
    by (simp add: loadPlugin_def resolve_config_def storage_GetPlugin_def)
qed

lemma loaded_simps:
  "plugins (loaded pluginPath p c en w) = plugins w"
  "gomaps (loaded pluginPath p c en w) (plugins w)
     = AList.update (pName (insts w p)) (next_info w) (gomaps w (plugins w))"
  "a = next_info w \<Longrightarrow> infos (loaded pluginPath p c en w) a
     = \<lparr>Name = pName (insts w p), Version = pVersion (insts w p),
         Description = pDescription (insts w p), FilePath = pluginPath,
         Enabled = en, Config = c, Plugin = p\<rparr>"
  "b \<noteq> next_info w \<Longrightarrow> infos (loaded pluginPath p c en w) b = infos w b"
  "calls (insts (loaded pluginPath p c en w) p)
     = calls (insts w p) @ CSetConfig c # (if en then [CInit] else [])"
  "logs (loaded pluginPath p c en w)
     = logs w
          @ (case SavePlugin_impl (storage w) (scalls (storage w)) (pName (insts w p))
                    pluginPath en c of
               Some e \<Rightarrow> [LogSaveInfoFailed e] | None \<Rightarrow> [])
          @ [LogLoaded (pName (insts w p)) (pVersion (insts w p))]"
  "GetPlugin k (loaded pluginPath p c en w)
     = (if k = pName (insts w p) then Some (next_info w) else GetPlugin k w)"
  by (simp_all add: loaded_def GetPlugin_def map_lookup_def update_conv')

lemma demo_plugin_simps:
  "pName demo_plugin = ''demo''"
  "pVersion demo_plugin = ''1.0''"
  "pDefaultConfig demo_plugin = Some 5"
  "pInit demo_plugin h = None"
  "pClose demo_plugin h = Some ''close failed''"
  "pInterestedAPIs demo_plugin = [''/v1/users'']"
  "pInterestedEvents demo_plugin = [''api_before'']"
  "calls demo_plugin = []"
  "pEffect demo_plugin h (CSetConfig c) = (\<lambda>heap. heap)"
  "pEffect demo_plugin h CInit = (\<lambda>heap. heap)"
  "pEffect demo_plugin h CClose = (\<lambda>heap. heap)"
  "pName broken_plugin = ''demo''"
  "pInit broken_plugin h = Some ''no licence''"
  "calls broken_plugin = []"
  by (simp_all add: demo_plugin_def broken_plugin_def)

lemma fresh_world_simps:
  "plugins (fresh_world inst st) = 0"
  "gomaps (fresh_world inst st) a = []"
  "next_info (fresh_world inst st) = 0"
  "insts (fresh_world inst st) a = inst"
  "storage (fresh_world inst st) = st"
  "logs (fresh_world inst st) = []"
  "GetPlugin k (fresh_world inst st) = None"
  by (simp_all add: fresh_world_def GetManager_def GetPlugin_def map_lookup_def)

lemma running_world_simps:
  "plugins (running_world en st) = 0"
  "gomaps (running_world en st) 0 = [(''demo'', 0)]"
  "next_map (running_world en st) = 1"
  "Name (infos (running_world en st) a) = ''demo''"
  "FilePath (infos (running_world en st) a) = ''plugins/demo.so''"
  "Enabled (infos (running_world en st) a) = en"
  "Config (infos (running_world en st) a) = Some 5"
  "cfgs (running_world en st) 5 = [''level'' \<mapsto> 1]"
  "cfgs (running_world en st) 6 = [''level'' \<mapsto> 9]"
  "Plugin (infos (running_world en st) a) = 7"
  "insts (running_world en st) a = demo_plugin"
  "storage (running_world en st) = st"
  "logs (running_world en st) = []"
  "goroutines (running_world en st) = []"
  "GetPlugin ''demo'' (running_world en st) = Some 0"
  by (simp_all add: running_world_def GetPlugin_def map_lookup_def)

subsection \<open>Loading a module\<close>









text \<open>
  Claim C6 as stated fails. The code parses the configuration string of a record only
  when the string is not empty (line 109). The empty string is not valid JSON, yet a
  record that carries it is loaded: the module is registered and \<^verbatim>\<open>SetConfig\<close> is
  called with the nil configuration.
\<close>

theorem loadPlugin_empty_string_counterexample:
  "fst (GetPlugin_impl (storage (fresh_world demo_plugin blank_storage))
          (scalls (storage (fresh_world demo_plugin blank_storage))) ''plugins/demo.so'')
     = Some \<lparr>sName = ''demo'', sPath = ''plugins/demo.so'', sEnabled = False, sConfig = []\<rparr>
   \<and> demo_json [] = Inl ''unexpected end of JSON input''
   \<and> fst (loadPlugin demo_open demo_json ''plugins/demo.so''
            (fresh_world demo_plugin blank_storage)) = None
   \<and> GetPlugin ''demo'' (snd (loadPlugin demo_open demo_json ''plugins/demo.so''
            (fresh_world demo_plugin blank_storage))) = Some 0
   \<and> calls (insts (snd (loadPlugin demo_open demo_json ''plugins/demo.so''
            (fresh_world demo_plugin blank_storage))) 7) = [CSetConfig None]"
proof -
  let ?w = "fresh_world demo_plugin blank_storage"
  let ?r = "\<lparr>sName = ''demo'', sPath = ''plugins/demo.so'', sEnabled = False, sConfig = []\<rparr>"
  have h1: "demo_open ''plugins/demo.so'' = GetPluginFn 7"
    by (simp add: demo_open_def)
  have h2: "fst (GetPlugin_impl (storage ?w) (scalls (storage ?w)) ''plugins/demo.so'') = Some ?r"
    by (simp add: fresh_world_simps blank_storage_def)
  have h3: "sConfig ?r \<noteq> [] \<longrightarrow> demo_json (sConfig ?r) = Inr None"
    by simp
  have h4: "sEnabled ?r \<longrightarrow> pInit (insts ?w 7) (calls (insts ?w 7) @ [CSetConfig None]) = None"
    by simp
  have l: "loadPlugin demo_open demo_json ''plugins/demo.so'' ?w
             = (None, loaded ''plugins/demo.so'' 7 None False
                        (record_scall (SGetPlugin ''plugins/demo.so'') ?w))"
    using loadPlugin_present_nil [where plugin_Open = demo_open and json_Unmarshal = demo_json,
        OF h1 h2 h3 h4] by simp
  show ?thesis
    unfolding l
    by (simp add: loaded_simps record_scall_def fresh_world_simps demo_plugin_simps
          blank_storage_def demo_json_def)
qed

text \<open>
  Claim C6, amended. When the prior record carries a configuration string that is not
  empty and does not parse, \<open>loadPlugin\<close> returns the parse error, the map of the
  manager and every record are as before (nothing is registered or replaced), and no
  instance has received any call: no configuration was applied.
\<close>

theorem loadPlugin_config_parse_failure:
  assumes "plugin_Open pluginPath = GetPluginFn p"
    and "fst (GetPlugin_impl (storage w) (scalls (storage w)) pluginPath) = Some r"
    and "sConfig r \<noteq> []"
    and "json_Unmarshal (sConfig r) = Inl e"
  shows "(let w' = snd (loadPlugin plugin_Open json_Unmarshal pluginPath w)
          in fst (loadPlugin plugin_Open json_Unmarshal pluginPath w) = Some (ErrParseConfig e)
           \<and> plugins w' = plugins w
           \<and> gomaps w' = gomaps w
           \<and> infos w' = infos w
           \<and> insts w' = insts w)"
  unfolding loadPlugin_parse_failed [where plugin_Open = plugin_Open
      and json_Unmarshal = json_Unmarshal, OF assms] Let_def
  by (simp add: record_scall_def)

theorem loadPlugin_config_parse_failure_witness:
  "demo_open ''plugins/demo.so'' = GetPluginFn 7
   \<and> fst (GetPlugin_impl (storage (fresh_world demo_plugin corrupt_storage))
          (scalls (storage (fresh_world demo_plugin corrupt_storage))) ''plugins/demo.so'')
     = Some \<lparr>sName = ''demo'', sPath = ''plugins/demo.so'', sEnabled = False,
              sConfig = ''{bad''\<rparr>
   \<and> demo_json ''{bad'' = Inl ''unexpected end of JSON input''
   \<and> fst (loadPlugin demo_open demo_json ''plugins/demo.so''
            (fresh_world demo_plugin corrupt_storage))
       = Some (ErrParseConfig ''unexpected end of JSON input'')
   \<and> GetPlugin ''demo'' (snd (loadPlugin demo_open demo_json ''plugins/demo.so''
            (fresh_world demo_plugin corrupt_storage))) = None
   \<and> calls (insts (snd (loadPlugin demo_open demo_json ''plugins/demo.so''
            (fresh_world demo_plugin corrupt_storage))) 7) = []"
proof -
  let ?w = "fresh_world demo_plugin corrupt_storage"
  let ?r = "\<lparr>sName = ''demo'', sPath = ''plugins/demo.so'', sEnabled = False,
             sConfig = ''{bad''\<rparr>"
  have h1: "demo_open ''plugins/demo.so'' = GetPluginFn 7"
    by (simp add: demo_open_def)
  have h2: "fst (GetPlugin_impl (storage ?w) (scalls (storage ?w)) ''plugins/demo.so'') = Some ?r"
    by (simp add: fresh_world_simps corrupt_storage_def)
  have h3: "sConfig ?r \<noteq> []"
    by simp
  have h4: "demo_json (sConfig ?r) = Inl ''unexpected end of JSON input''"
    by (simp add: demo_json_def)
  show ?thesis
    using h1 h2 h4
      loadPlugin_config_parse_failure [where plugin_Open = demo_open
        and json_Unmarshal = demo_json, OF h1 h2 h3 h4]
    by (simp add: Let_def GetPlugin_def map_lookup_def fresh_world_simps demo_plugin_simps)
qed

text \<open>
  Claim C9 as stated fails. A record with an empty configuration string may be enabled,
  and then \<^verbatim>\<open>Init\<close> runs; when it fails the load fails and the module is not
  registered.
\<close>

theorem loadPlugin_empty_config_counterexample:
  "fst (GetPlugin_impl (storage (fresh_world broken_plugin stale_storage))
          (scalls (storage (fresh_world broken_plugin stale_storage))) ''plugins/demo.so'')
     = Some \<lparr>sName = ''demo'', sPath = ''plugins/demo.so'', sEnabled = True, sConfig = []\<rparr>
   \<and> fst (loadPlugin demo_open demo_json ''plugins/demo.so''
            (fresh_world broken_plugin stale_storage)) = Some (ErrInitSkipped ''demo'')
   \<and> GetPlugin ''demo'' (snd (loadPlugin demo_open demo_json ''plugins/demo.so''
            (fresh_world broken_plugin stale_storage))) = None"
proof -
  let ?w = "fresh_world broken_plugin stale_storage"
  let ?r = "\<lparr>sName = ''demo'', sPath = ''plugins/demo.so'', sEnabled = True, sConfig = []\<rparr>"
  have h1: "demo_open ''plugins/demo.so'' = GetPluginFn 7"
    by (simp add: demo_open_def)
  have h2: "fst (GetPlugin_impl (storage ?w) (scalls (storage ?w)) ''plugins/demo.so'') = Some ?r"
    by (simp add: fresh_world_simps stale_storage_def)
  have h3: "sConfig ?r \<noteq> [] \<longrightarrow> demo_json (sConfig ?r) = Inr None"
    by simp
  have h4: "sEnabled ?r"
    by simp
  have h5: "pInit (insts ?w 7) (calls (insts ?w 7) @ [CSetConfig None]) = Some ''no licence''"
    by (simp add: fresh_world_simps demo_plugin_simps)
  note f = loadPlugin_init_failed_nil [where plugin_Open = demo_open and json_Unmarshal = demo_json,
        OF h1 h2 h3 h4 h5]
  show ?thesis
    using h2 f(1,2,3)
    by (simp add: GetPlugin_def map_lookup_def fresh_world_simps demo_plugin_simps)
qed

text \<open>
  Claim C9, amended. When the prior record carries an empty configuration string, the
  instance receives \<^verbatim>\<open>SetConfig\<close> with the nil configuration, then \<^verbatim>\<open>Init\<close> if the
  record is enabled, and never \<^verbatim>\<open>DefaultConfig\<close>. Unless the record is enabled and
  \<^verbatim>\<open>Init\<close> fails, the load succeeds and registers the module with the nil
  configuration and the flag of the record.
\<close>

theorem loadPlugin_empty_config_string:
  assumes "plugin_Open pluginPath = GetPluginFn p"
    and "fst (GetPlugin_impl (storage w) (scalls (storage w)) pluginPath) = Some r"
    and "sConfig r = []"
  shows "(let w' = snd (loadPlugin plugin_Open json_Unmarshal pluginPath w);
              info = next_info w;
              init = pInit (insts w p) (calls (insts w p) @ [CSetConfig None])
          in calls (insts w' p)
               = calls (insts w p) @ CSetConfig None # (if sEnabled r then [CInit] else [])
           \<and> ((sEnabled r \<longrightarrow> init = None)
                \<longrightarrow> fst (loadPlugin plugin_Open json_Unmarshal pluginPath w) = None
                  \<and> GetPlugin (pName (insts w p)) w' = Some info
                  \<and> Config (infos w' info) = None
                  \<and> Enabled (infos w' info) = sEnabled r)
           \<and> (sEnabled r \<and> init \<noteq> None
                \<longrightarrow> fst (loadPlugin plugin_Open json_Unmarshal pluginPath w)
                      = Some (ErrInitSkipped (pName (insts w p)))
                  \<and> plugins w' = plugins w
                  \<and> gomaps w' = gomaps w
                  \<and> (\<forall>k. GetPlugin k w' = GetPlugin k w)))"
proof (cases "sEnabled r \<longrightarrow> pInit (insts w p) (calls (insts w p) @ [CSetConfig None]) = None")
  case True
  have c: "sConfig r \<noteq> [] \<longrightarrow> json_Unmarshal (sConfig r) = Inr None"
    using assms(3) by simp
  from True have n: "\<not> (sEnabled r
      \<and> pInit (insts w p) (calls (insts w p) @ [CSetConfig None]) \<noteq> None)"
    by simp
  show ?thesis
    unfolding loadPlugin_present_nil [where plugin_Open = plugin_Open
        and json_Unmarshal = json_Unmarshal, OF assms(1,2) c True] Let_def
    using n by (simp add: loaded_simps record_scall_def)
next
  case False
  then obtain e where en: "sEnabled r"
    and i: "pInit (insts w p) (calls (insts w p) @ [CSetConfig None]) = Some e"
    by auto
  have c: "sConfig r \<noteq> [] \<longrightarrow> json_Unmarshal (sConfig r) = Inr None"
    using assms(3) by simp
  note f = loadPlugin_init_failed_nil [where plugin_Open = plugin_Open
      and json_Unmarshal = json_Unmarshal, OF assms(1,2) c en i]
  show ?thesis
    using f en i by (simp add: Let_def GetPlugin_def map_lookup_def)
qed

theorem loadPlugin_empty_config_string_witness:
  "demo_open ''plugins/demo.so'' = GetPluginFn 7
   \<and> fst (GetPlugin_impl (storage (fresh_world demo_plugin stale_storage))
          (scalls (storage (fresh_world demo_plugin stale_storage))) ''plugins/demo.so'')
     = Some \<lparr>sName = ''demo'', sPath = ''plugins/demo.so'', sEnabled = True, sConfig = []\<rparr>
   \<and> pInit (insts (fresh_world demo_plugin stale_storage) 7)
        (calls (insts (fresh_world demo_plugin stale_storage) 7) @ [CSetConfig None]) = None
   \<and> calls (insts (snd (loadPlugin demo_open demo_json ''plugins/demo.so''
            (fresh_world demo_plugin stale_storage))) 7) = [CSetConfig None, CInit]
   \<and> fst (loadPlugin demo_open demo_json ''plugins/demo.so''
            (fresh_world demo_plugin stale_storage)) = None
   \<and> GetPlugin ''demo'' (snd (loadPlugin demo_open demo_json ''plugins/demo.so''
            (fresh_world demo_plugin stale_storage))) = Some 0
   \<and> Config (infos (snd (loadPlugin demo_open demo_json ''plugins/demo.so''
            (fresh_world demo_plugin stale_storage))) 0) = None
   \<and> Enabled (infos (snd (loadPlugin demo_open demo_json ''plugins/demo.so''
            (fresh_world demo_plugin stale_storage))) 0)
   \<and> fst (GetPlugin_impl (storage (fresh_world broken_plugin stale_storage))
          (scalls (storage (fresh_world broken_plugin stale_storage))) ''plugins/demo.so'')
     = Some \<lparr>sName = ''demo'', sPath = ''plugins/demo.so'', sEnabled = True, sConfig = []\<rparr>
   \<and> pInit (insts (fresh_world broken_plugin stale_storage) 7)
        (calls (insts (fresh_world broken_plugin stale_storage) 7) @ [CSetConfig None])
       = Some ''no licence''
   \<and> calls (insts (snd (loadPlugin demo_open demo_json ''plugins/demo.so''
            (fresh_world broken_plugin stale_storage))) 7) = [CSetConfig None, CInit]
   \<and> fst (loadPlugin demo_open demo_json ''plugins/demo.so''
            (fresh_world broken_plugin stale_storage)) = Some (ErrInitSkipped ''demo'')
   \<and> gomaps (snd (loadPlugin demo_open demo_json ''plugins/demo.so''
            (fresh_world broken_plugin stale_storage))) 0 = []"
proof -
  let ?w = "fresh_world demo_plugin stale_storage"
  let ?b = "fresh_world broken_plugin stale_storage"
  let ?r = "\<lparr>sName = ''demo'', sPath = ''plugins/demo.so'', sEnabled = True, sConfig = []\<rparr>"
  have h1: "demo_open ''plugins/demo.so'' = GetPluginFn 7"
    by (simp add: demo_open_def)
  have h2: "fst (GetPlugin_impl (storage ?w) (scalls (storage ?w)) ''plugins/demo.so'') = Some ?r"
    by (simp add: fresh_world_simps stale_storage_def)
  have b2: "fst (GetPlugin_impl (storage ?b) (scalls (storage ?b)) ''plugins/demo.so'') = Some ?r"
    by (simp add: fresh_world_simps stale_storage_def)
  have h3: "sConfig ?r = []"
    by simp
  have good: "demo_open ''plugins/demo.so'' = GetPluginFn 7
   \<and> fst (GetPlugin_impl (storage ?w) (scalls (storage ?w)) ''plugins/demo.so'') = Some ?r
   \<and> pInit (insts ?w 7) (calls (insts ?w 7) @ [CSetConfig None]) = None
   \<and> calls (insts (snd (loadPlugin demo_open demo_json ''plugins/demo.so'' ?w)) 7)
        = [CSetConfig None, CInit]
   \<and> fst (loadPlugin demo_open demo_json ''plugins/demo.so'' ?w) = None
   \<and> GetPlugin ''demo'' (snd (loadPlugin demo_open demo_json ''plugins/demo.so'' ?w)) = Some 0
   \<and> Config (infos (snd (loadPlugin demo_open demo_json ''plugins/demo.so'' ?w)) 0) = None
   \<and> Enabled (infos (snd (loadPlugin demo_open demo_json ''plugins/demo.so'' ?w)) 0)"
    using h1 h2
      loadPlugin_empty_config_string [where plugin_Open = demo_open
        and json_Unmarshal = demo_json, OF h1 h2 h3]
    by (simp add: Let_def fresh_world_simps demo_plugin_simps)
  have bad: "fst (GetPlugin_impl (storage ?b) (scalls (storage ?b)) ''plugins/demo.so'') = Some ?r
   \<and> pInit (insts ?b 7) (calls (insts ?b 7) @ [CSetConfig None]) = Some ''no licence''
   \<and> calls (insts (snd (loadPlugin demo_open demo_json ''plugins/demo.so'' ?b)) 7)
        = [CSetConfig None, CInit]
   \<and> fst (loadPlugin demo_open demo_json ''plugins/demo.so'' ?b)
        = Some (ErrInitSkipped ''demo'')
   \<and> gomaps (snd (loadPlugin demo_open demo_json ''plugins/demo.so'' ?b)) 0 = []"
    using b2
      loadPlugin_empty_config_string [where plugin_Open = demo_open
        and json_Unmarshal = demo_json, OF h1 b2 h3]
    by (simp add: Let_def fresh_world_simps demo_plugin_simps)
  from good bad show ?thesis
    by blast
qed


subsection \<open>Enabling, disabling and reconfiguring\<close>

text \<open>What the three operations do to the records, and what \<^verbatim>\<open>Shutdown\<close> leaves.\<close>

lemma Enabled_False_idem: "\<not> Enabled r \<Longrightarrow> r\<lparr>Enabled := False\<rparr> = r"
  by (cases r) simp

lemma EnablePlugin_infos:
  "infos (snd (EnablePlugin name w)) b =
     (case GetPlugin name w of
        None \<Rightarrow> infos w b
      | Some a \<Rightarrow>
          if b = a \<and> \<not> Enabled (infos w a)
             \<and> pInit (insts w (Plugin (infos w a))) (calls (insts w (Plugin (infos w a)))) = None
             \<and> SavePlugin_impl (storage w) (scalls (storage w)) (Name (infos w a))
                  (FilePath (infos w a)) True (Config (infos w a)) = None
          then (infos w a)\<lparr>Enabled := True\<rparr>
          else infos w b)"
  by (simp add: EnablePlugin_def GetPlugin_def call_defs Let_def Enabled_False_idem
        split: option.splits)

lemma DisablePlugin_infos:
  "infos (snd (DisablePlugin name w)) b =
     (if GetPlugin name w = Some b then (infos w b)\<lparr>Enabled := False\<rparr> else infos w b)"
  by (simp add: DisablePlugin_def GetPlugin_def call_defs Let_def Enabled_False_idem
        split: option.splits)

lemma UpdatePluginConfig_Enabled:
  "Enabled (infos (snd (UpdatePluginConfig name config w)) b) = Enabled (infos w b)"
  by (simp add: UpdatePluginConfig_def call_defs Let_def split: option.splits)

lemma Shutdown_registry: "gomaps (Shutdown w) (plugins (Shutdown w)) = []"
  by (simp add: Shutdown_def make_map_def Let_def)

text \<open>
  Claim C3. \<^verbatim>\<open>EnablePlugin\<close> on a registered, disabled plugin whose \<^verbatim>\<open>Init\<close>
  succeeds while the write to the storage fails: the record is disabled afterwards (no
  record has changed at all), the instance received \<^verbatim>\<open>Init\<close> and then \<^verbatim>\<open>Close\<close>
  exactly once, and the error returned wraps the error of the storage, whatever
  \<^verbatim>\<open>Close\<close> answered.
\<close>

theorem EnablePlugin_rollback:
  assumes "GetPlugin name w = Some a"
    and "\<not> Enabled (infos w a)"
    and "pInit (insts w (Plugin (infos w a))) (calls (insts w (Plugin (infos w a)))) = None"
    and "SavePlugin_impl (storage w) (scalls (storage w)) (Name (infos w a))
           (FilePath (infos w a)) True (Config (infos w a)) = Some e"
  shows "(let w' = snd (EnablePlugin name w); p = Plugin (infos w a)
          in fst (EnablePlugin name w) = Some (ErrSaveState e)
           \<and> \<not> Enabled (infos w' a)
           \<and> infos w' = infos w
           \<and> calls (insts w' p) = calls (insts w p) @ [CInit, CClose])"
  using assms
  by (simp add: EnablePlugin_def GetPlugin_def call_defs Let_def Enabled_False_idem)

theorem EnablePlugin_rollback_witness:
  "GetPlugin ''demo'' (running_world False failing_storage) = Some 0
   \<and> \<not> Enabled (infos (running_world False failing_storage) 0)
   \<and> pInit (insts (running_world False failing_storage) 7)
        (calls (insts (running_world False failing_storage) 7)) = None
   \<and> SavePlugin_impl (storage (running_world False failing_storage))
        (scalls (storage (running_world False failing_storage))) ''demo'' ''plugins/demo.so''
        True (Some 5) = Some ''disk full''
   \<and> pClose (insts (running_world False failing_storage) 7) [CInit] = Some ''close failed''
   \<and> fst (EnablePlugin ''demo'' (running_world False failing_storage))
        = Some (ErrSaveState ''disk full'')
   \<and> \<not> Enabled (infos (snd (EnablePlugin ''demo'' (running_world False failing_storage))) 0)
   \<and> calls (insts (snd (EnablePlugin ''demo'' (running_world False failing_storage))) 7)
        = [CInit, CClose]"
proof -
  let ?w = "running_world False failing_storage"
  have h1: "GetPlugin ''demo'' ?w = Some 0"
    by (simp add: running_world_simps)
  have h2: "\<not> Enabled (infos ?w 0)"
    by (simp add: running_world_simps)
  have h3: "pInit (insts ?w (Plugin (infos ?w 0))) (calls (insts ?w (Plugin (infos ?w 0)))) = None"
    by (simp add: running_world_simps demo_plugin_simps)
  have h4: "SavePlugin_impl (storage ?w) (scalls (storage ?w)) (Name (infos ?w 0))
              (FilePath (infos ?w 0)) True (Config (infos ?w 0)) = Some ''disk full''"
    by (simp add: running_world_simps failing_storage_def)
  show ?thesis
    using h1 h2 h3 h4 EnablePlugin_rollback [OF h1 h2 h3 h4]
    by (simp add: Let_def running_world_simps demo_plugin_simps)
qed






text \<open>
  Claim C8. \<^verbatim>\<open>DisablePlugin\<close> on a registered, enabled plugin when the write to the
  storage fails: it returns nil, the record is disabled, the instance received
  \<^verbatim>\<open>Close\<close>, and the error of the storage is the last line of the log.
\<close>

theorem DisablePlugin_succeeds_without_storage:
  assumes "GetPlugin name w = Some a"
    and "Enabled (infos w a)"
    and "SavePlugin_impl (storage w) (scalls (storage w)) (Name (infos w a))
           (FilePath (infos w a)) False (Config (infos w a)) = Some e"
  shows "(let w' = snd (DisablePlugin name w); p = Plugin (infos w a)
          in fst (DisablePlugin name w) = None
           \<and> \<not> Enabled (infos w' a)
           \<and> calls (insts w' p) = calls (insts w p) @ [CClose]
           \<and> logs w' = logs w
               @ (case pClose (insts w p) (calls (insts w p)) of
                    Some ce \<Rightarrow> [LogCloseFailed name ce] | None \<Rightarrow> [])
               @ [LogUpdateStateFailed e])"
  using assms
  by (simp add: DisablePlugin_def GetPlugin_def call_defs Let_def split: option.splits)

theorem DisablePlugin_succeeds_without_storage_witness:
  "GetPlugin ''demo'' (running_world True failing_storage) = Some 0
   \<and> Enabled (infos (running_world True failing_storage) 0)
   \<and> SavePlugin_impl (storage (running_world True failing_storage))
        (scalls (storage (running_world True failing_storage))) ''demo'' ''plugins/demo.so''
        False (Some 5) = Some ''disk full''
   \<and> fst (DisablePlugin ''demo'' (running_world True failing_storage)) = None
   \<and> \<not> Enabled (infos (snd (DisablePlugin ''demo'' (running_world True failing_storage))) 0)
   \<and> calls (insts (snd (DisablePlugin ''demo'' (running_world True failing_storage))) 7)
        = [CClose]
   \<and> logs (snd (DisablePlugin ''demo'' (running_world True failing_storage)))
        = [LogCloseFailed ''demo'' ''close failed'', LogUpdateStateFailed ''disk full'']"
proof -
  let ?w = "running_world True failing_storage"
  have h1: "GetPlugin ''demo'' ?w = Some 0"
    by (simp add: running_world_simps)
  have h2: "Enabled (infos ?w 0)"
    by (simp add: running_world_simps)
  have h3: "SavePlugin_impl (storage ?w) (scalls (storage ?w)) (Name (infos ?w 0))
              (FilePath (infos ?w 0)) False (Config (infos ?w 0)) = Some ''disk full''"
    by (simp add: running_world_simps failing_storage_def)
  show ?thesis
    using h1 h2 h3 DisablePlugin_succeeds_without_storage [OF h1 h2 h3]
    by (simp add: Let_def running_world_simps demo_plugin_simps)
qed


subsection \<open>Dispatching events\<close>

text \<open>
  \<^verbatim>\<open>strings.HasPrefix\<close> is the prefix order on strings, and each of the two inner loops
  of \<^verbatim>\<open>TriggerEvent\<close> decides a membership.
\<close>

lemma HasPrefix_prefix: "HasPrefix s pre = prefix pre s"
proof
  assume "HasPrefix s pre"
  then have "s = pre @ drop (length pre) s"
    by (metis HasPrefix_def append_take_drop_id)
  then show "prefix pre s"
    by (metis prefixI)
next
  assume "prefix pre s"
  then obtain zs where "s = pre @ zs"
    by (auto simp: prefix_def)
  then show "HasPrefix s pre"
    by (simp add: HasPrefix_def)
qed

lemma eventInterested_member: "eventInterested es event = (event \<in> set es)"
  by (induction es) auto

lemma apiInterested_prefix: "apiInterested as path = (\<exists>api \<in> set as. prefix api path)"
  by (induction as) (auto simp: HasPrefix_prefix)

lemma trigger_loop_spec:
  "trigger_loop entries ctx event path statusCode requestBody responseBody w =
     w\<lparr>goroutines := goroutines w
         @ map (handler w ctx event path statusCode requestBody responseBody)
             (filter (\<lambda>info. interested w info event path) (map snd entries))\<rparr>"
proof (induction entries arbitrary: w)
  case Nil
  then show ?case by simp
next
  case (Cons entry entries)
  obtain k info where e: "entry = (k, info)" by (cases entry)
  show ?case
    by (simp add: e Cons.IH interested_def handler_def spawn_def eventInterested_member
          apiInterested_prefix)
qed

text \<open>
  Claim C4. \<^verbatim>\<open>TriggerEvent\<close> changes nothing but the goroutines: it starts one
  handler for each entry of the manager's map whose record is enabled, whose module
  lists the event type among its interested events, and one of whose interested paths is
  a prefix of the path; it starts no other. A module with no interested path or no
  interested event is never notified.
\<close>

theorem TriggerEvent_dispatch:
  "TriggerEvent ctx event path statusCode requestBody responseBody w =
     w\<lparr>goroutines := goroutines w
         @ map (handler w ctx event path statusCode requestBody responseBody)
             (filter (\<lambda>info. interested w info event path) (map snd (gomaps w (plugins w))))\<rparr>
   \<and> (pInterestedAPIs (insts w (Plugin (infos w info))) = []
        \<or> pInterestedEvents (insts w (Plugin (infos w info))) = []
      \<longrightarrow> \<not> interested w info event path)"
  by (simp add: TriggerEvent_def trigger_loop_spec) (auto simp: interested_def)

theorem TriggerEvent_dispatch_witness:
  "goroutines (TriggerEvent 3 EventAPIBefore ''/v1/users/42'' 200 0 0
                 (running_world True DefaultStorage))
     = [OnAPIEvent 7 ''demo'' 3 ''api_before'' ''/v1/users/42'' 200 0 0]
   \<and> goroutines (TriggerEvent 3 EventAPIBefore ''/v1/orders/5'' 200 0 0
                 (running_world True DefaultStorage)) = []
   \<and> goroutines (TriggerEvent 3 EventAPIAfter ''/v1/users/42'' 200 0 0
                 (running_world True DefaultStorage)) = []
   \<and> goroutines (TriggerEvent 3 EventAPIBefore ''/v1/users/42'' 200 0 0
                 (running_world False DefaultStorage)) = []
   \<and> pInterestedAPIs (insts mute_world (Plugin (infos mute_world 0))) = []
   \<and> goroutines (TriggerEvent 3 EventAPIBefore ''/v1/users/42'' 200 0 0 mute_world) = []"
proof -
  have m: "pInterestedAPIs (insts mute_world (Plugin (infos mute_world 0))) = []"
    "gomaps mute_world (plugins mute_world) = [(''demo'', 0)]"
    "goroutines mute_world = []"
    by (simp_all add: mute_world_def running_world_simps)
  have n: "\<not> interested mute_world 0 EventAPIBefore ''/v1/users/42''"
    using TriggerEvent_dispatch [of 3 EventAPIBefore "''/v1/users/42''" 200 0 0 mute_world 0] m(1)
    by simp
  have a: "interested (running_world True DefaultStorage) 0 EventAPIBefore ''/v1/users/42''"
    "\<not> interested (running_world True DefaultStorage) 0 EventAPIBefore ''/v1/orders/5''"
    "\<not> interested (running_world True DefaultStorage) 0 EventAPIAfter ''/v1/users/42''"
    "\<not> interested (running_world False DefaultStorage) 0 EventAPIBefore ''/v1/users/42''"
    by (simp_all add: interested_def running_world_simps demo_plugin_simps EventAPIBefore_def
          EventAPIAfter_def)
  show ?thesis
    using m n a
      TriggerEvent_dispatch [of 3 EventAPIBefore "''/v1/users/42''" 200 0 0
        "running_world True DefaultStorage" 0]
      TriggerEvent_dispatch [of 3 EventAPIBefore "''/v1/orders/5''" 200 0 0
        "running_world True DefaultStorage" 0]
      TriggerEvent_dispatch [of 3 EventAPIAfter "''/v1/users/42''" 200 0 0
        "running_world True DefaultStorage" 0]
      TriggerEvent_dispatch [of 3 EventAPIBefore "''/v1/users/42''" 200 0 0
        "running_world False DefaultStorage" 0]
      TriggerEvent_dispatch [of 3 EventAPIBefore "''/v1/users/42''" 200 0 0 mute_world 0]
    by (simp add: handler_def running_world_simps EventAPIBefore_def)
qed


subsection \<open>Reading the registry\<close>

text \<open>
  The loop of \<^verbatim>\<open>GetAllPlugins\<close> writes to the new map only, and copying a map whose
  keys are distinct gives the same entries.
\<close>

lemma copy_entries_gomaps:
  "gomaps (copy_entries result entries w) =
     (gomaps w)(result := fold (\<lambda>(k, v). AList.update k v) entries (gomaps w result))"
proof (induction entries arbitrary: w)
  case Nil
  then show ?case by simp
next
  case (Cons entry entries)
  obtain k v where e: "entry = (k, v)" by (cases entry)
  show ?case
    by (simp add: e Cons.IH map_store_def fun_eq_iff)
qed

lemma copy_entries_frame:
  "infos (copy_entries result entries w) = infos w
   \<and> insts (copy_entries result entries w) = insts w
   \<and> plugins (copy_entries result entries w) = plugins w
   \<and> next_map (copy_entries result entries w) = next_map w"
  by (induction entries arbitrary: w) (auto simp: map_store_def)

lemma update_fresh_key: "k \<notin> fst ` set al \<Longrightarrow> AList.update k v al = al @ [(k, v)]"
  by (induction al) auto

lemma fold_update_distinct:
  "distinct (map fst (al @ entries))
     \<Longrightarrow> fold (\<lambda>(k, v). AList.update k v) entries al = al @ entries"
proof (induction entries arbitrary: al)
  case Nil
  then show ?case by simp
next
  case (Cons entry entries)
  obtain k v where e: "entry = (k, v)" by (cases entry)
  from Cons.prems e have f: "k \<notin> fst ` set al"
    by auto
  from Cons.prems e have d: "distinct (map fst ((al @ [(k, v)]) @ entries))"
    by simp
  show ?case
    using Cons.IH [OF d] by (simp add: e update_fresh_key [OF f])
qed

lemma GetAllPlugins_eq:
  assumes "plugins w < next_map w"
  shows "fst (GetAllPlugins w) = next_map w"
    and "gomaps (snd (GetAllPlugins w)) =
           (gomaps w)(next_map w :=
              fold (\<lambda>(k, v). AList.update k v) (gomaps w (plugins w)) [])"
    and "infos (snd (GetAllPlugins w)) = infos w"
    and "insts (snd (GetAllPlugins w)) = insts w"
    and "plugins (snd (GetAllPlugins w)) = plugins w"
  using assms
  by (simp_all add: GetAllPlugins_def make_map_def copy_entries_gomaps copy_entries_frame)

text \<open>
  The manager's map is an allocated map object after \<^verbatim>\<open>GetManager\<close>, and every
  operation keeps it so.
\<close>

lemma store_plugin_map_frame:
  "plugins (snd (store_plugin pluginPath info w)) = plugins w
   \<and> next_map (snd (store_plugin pluginPath info w)) = next_map w"
  by (simp add: store_plugin_def call_defs Let_def split: option.splits)

lemma install_plugin_map_frame:
  "plugins (snd (install_plugin pluginPath p c en w)) = plugins w
   \<and> next_map (snd (install_plugin pluginPath p c en w)) = next_map w"
proof (cases "en \<longrightarrow> pInit (insts w p) (calls (insts w p) @ [CSetConfig c]) = None")
  case True
  then show ?thesis
    by (simp add: install_plugin_stored loaded_def)
next
  case False
  then show ?thesis
    by (auto simp: install_plugin_def call_defs Let_def split: option.splits)
qed

lemma resolve_config_map_frame:
  "plugins (snd (resolve_config json_Unmarshal pluginDB p w)) = plugins w
   \<and> next_map (snd (resolve_config json_Unmarshal pluginDB p w)) = next_map w"
  by (simp add: resolve_config_def store_config_def call_defs
        split: option.splits sum.splits prod.splits)

lemma loadPlugin_map_frame:
  "plugins (snd (loadPlugin plugin_Open json_Unmarshal pluginPath w)) = plugins w
   \<and> next_map (snd (loadPlugin plugin_Open json_Unmarshal pluginPath w)) = next_map w"
proof (cases "plugin_Open pluginPath")
  case (GetPluginFn p)
  obtain db ge where g: "GetPlugin_impl (storage w) (scalls (storage w)) pluginPath = (db, ge)"
    by (cases "GetPlugin_impl (storage w) (scalls (storage w)) pluginPath")
  define w2 where "w2 = (if db = None
      then add_log (LogNotRegistered pluginPath) (record_scall (SGetPlugin pluginPath) w)
      else record_scall (SGetPlugin pluginPath) w)"
  have f2: "plugins w2 = plugins w \<and> next_map w2 = next_map w"
    by (simp add: w2_def add_log_def record_scall_def)
  obtain res w3 where r: "resolve_config json_Unmarshal db p w2 = (res, w3)"
    by (cases "resolve_config json_Unmarshal db p w2")
  have f3: "plugins w3 = plugins w \<and> next_map w3 = next_map w"
    using resolve_config_map_frame [of json_Unmarshal db p w2] r f2 by simp
  have l: "loadPlugin plugin_Open json_Unmarshal pluginPath w =
      (case res of Inl e \<Rightarrow> (Some (ErrParseConfig e), w3)
       | Inr (config, enable) \<Rightarrow> install_plugin pluginPath p config enable w3)"
    using GetPluginFn g r
    by (simp add: loadPlugin_def storage_GetPlugin_def w2_def)
  show ?thesis
    unfolding l using f3
    by (simp add: install_plugin_map_frame split: sum.splits prod.splits)
qed (simp_all add: loadPlugin_def add_log_def)

lemma manager_map_allocated:
  "plugins (GetManager is s) < next_map (GetManager is s)"
  "plugins w < next_map w \<Longrightarrow>
     plugins (snd (loadPlugin plugin_Open json_Unmarshal pluginPath w))
       < next_map (snd (loadPlugin plugin_Open json_Unmarshal pluginPath w))"
  "plugins w < next_map w \<Longrightarrow>
     plugins (snd (EnablePlugin name w)) < next_map (snd (EnablePlugin name w))"
  "plugins w < next_map w \<Longrightarrow>
     plugins (snd (DisablePlugin name w)) < next_map (snd (DisablePlugin name w))"
  "plugins w < next_map w \<Longrightarrow>
     plugins (snd (UpdatePluginConfig name config w))
       < next_map (snd (UpdatePluginConfig name config w))"
  "plugins w < next_map w \<Longrightarrow>
     plugins (TriggerEvent ctx event path statusCode requestBody responseBody w)
       < next_map (TriggerEvent ctx event path statusCode requestBody responseBody w)"
  "plugins w < next_map w \<Longrightarrow>
     plugins (snd (GetAllPlugins w)) < next_map (snd (GetAllPlugins w))"
  "plugins (Shutdown w) < next_map (Shutdown w)"
proof -
  show "plugins (GetManager is s) < next_map (GetManager is s)"
    by (simp add: GetManager_def)
  show "plugins w < next_map w \<Longrightarrow>
     plugins (snd (loadPlugin plugin_Open json_Unmarshal pluginPath w))
       < next_map (snd (loadPlugin plugin_Open json_Unmarshal pluginPath w))"
    by (simp add: loadPlugin_map_frame)
  show "plugins w < next_map w \<Longrightarrow>
     plugins (snd (EnablePlugin name w)) < next_map (snd (EnablePlugin name w))"
    by (simp add: EnablePlugin_def call_defs Let_def split: option.splits)
  show "plugins w < next_map w \<Longrightarrow>
     plugins (snd (DisablePlugin name w)) < next_map (snd (DisablePlugin name w))"
    by (simp add: DisablePlugin_def call_defs Let_def split: option.splits)
  show "plugins w < next_map w \<Longrightarrow>
     plugins (snd (UpdatePluginConfig name config w))
       < next_map (snd (UpdatePluginConfig name config w))"
    by (simp add: UpdatePluginConfig_def call_defs Let_def split: option.splits)
  show "plugins w < next_map w \<Longrightarrow>
     plugins (TriggerEvent ctx event path statusCode requestBody responseBody w)
       < next_map (TriggerEvent ctx event path statusCode requestBody responseBody w)"
    by (simp add: TriggerEvent_def trigger_loop_spec)
  show "plugins w < next_map w \<Longrightarrow>
     plugins (snd (GetAllPlugins w)) < next_map (snd (GetAllPlugins w))"
    by (simp add: GetAllPlugins_def make_map_def copy_entries_frame)
  show "plugins (Shutdown w) < next_map (Shutdown w)"
    by (simp add: Shutdown_def make_map_def Let_def)
qed


text \<open>
  Claim C2 as stated fails. \<^verbatim>\<open>GetAllPlugins\<close> copies the entries of the map, and an
  entry is a pointer. The caller finds the record of \<open>demo\<close> in the result and sets
  its flag; the record the manager finds under \<open>demo\<close> is the same one and is now
  enabled.
\<close>

theorem GetAllPlugins_shares_records_counterexample:
  "map_lookup (fst (GetAllPlugins (running_world False DefaultStorage))) ''demo''
      (snd (GetAllPlugins (running_world False DefaultStorage))) = Some 0
   \<and> \<not> Enabled (infos (snd (GetAllPlugins (running_world False DefaultStorage))) 0)
   \<and> GetPlugin ''demo''
        (set_Enabled 0 True (snd (GetAllPlugins (running_world False DefaultStorage)))) = Some 0
   \<and> Enabled (infos
        (set_Enabled 0 True (snd (GetAllPlugins (running_world False DefaultStorage)))) 0)"
proof -
  have p: "plugins (running_world False DefaultStorage)
             < next_map (running_world False DefaultStorage)"
    by (simp add: running_world_simps)
  show ?thesis
    by (simp add: GetAllPlugins_eq [OF p] map_lookup_def GetPlugin_def set_Enabled_def
          running_world_simps)
qed

text \<open>
  Claim C2, amended. In a process whose manager map has been allocated (by
  \<open>manager_map_allocated\<close>, every state the operations reach from \<^verbatim>\<open>GetManager\<close>),
  \<^verbatim>\<open>GetAllPlugins\<close> returns a map object of its own and changes neither the manager's
  map nor any record or instance. Storing into the returned map or deleting from it
  leaves the manager's map (its keys and the record each key points to) and every record
  as they were. The entries of the returned map are those of the manager's map, the
  same pointers: the records themselves are shared with the caller.
\<close>

theorem GetAllPlugins_fresh_map:
  assumes "plugins w < next_map w"
  shows "(let result = fst (GetAllPlugins w); w' = snd (GetAllPlugins w)
          in result \<noteq> plugins w'
           \<and> plugins w' = plugins w
           \<and> gomaps w' (plugins w') = gomaps w (plugins w)
           \<and> infos w' = infos w
           \<and> insts w' = insts w
           \<and> (distinct (map fst (gomaps w (plugins w)))
                \<longrightarrow> gomaps w' result = gomaps w (plugins w))
           \<and> gomaps (map_store result k v w') (plugins w') = gomaps w (plugins w)
           \<and> gomaps (map_delete result k w') (plugins w') = gomaps w (plugins w)
           \<and> infos (map_store result k v w') = infos w
           \<and> infos (map_delete result k w') = infos w)"
  using assms
  by (simp add: Let_def GetAllPlugins_eq [OF assms] map_store_def map_delete_def
        fold_update_distinct)

theorem GetAllPlugins_fresh_map_witness:
  "plugins (running_world False DefaultStorage) < next_map (running_world False DefaultStorage)
   \<and> distinct (map fst (gomaps (running_world False DefaultStorage)
                           (plugins (running_world False DefaultStorage))))
   \<and> fst (GetAllPlugins (running_world False DefaultStorage)) \<noteq> 0
   \<and> gomaps (snd (GetAllPlugins (running_world False DefaultStorage)))
        (fst (GetAllPlugins (running_world False DefaultStorage))) = [(''demo'', 0)]
   \<and> gomaps (map_delete (fst (GetAllPlugins (running_world False DefaultStorage))) ''demo''
               (snd (GetAllPlugins (running_world False DefaultStorage)))) 0
       = [(''demo'', 0)]
   \<and> gomaps (map_store (fst (GetAllPlugins (running_world False DefaultStorage))) ''other'' 5
               (snd (GetAllPlugins (running_world False DefaultStorage)))) 0
       = [(''demo'', 0)]"
proof -
  let ?w = "running_world False DefaultStorage"
  have p: "plugins ?w < next_map ?w"
    by (simp add: running_world_simps)
  have d: "distinct (map fst (gomaps ?w (plugins ?w)))"
    by (simp add: running_world_simps)
  show ?thesis
    using p d GetAllPlugins_fresh_map [OF p, of "''demo''" 5]
      GetAllPlugins_fresh_map [OF p, of "''other''" 5]
    by (auto simp: Let_def running_world_simps)
qed


subsection \<open>When a record is enabled\<close>

text \<open>
  Recording a call or a log line touches neither the map nor the records. A record that
  the manager holds enabled after a load was held enabled before, or is the new record of
  a module whose prior record was enabled and whose \<^verbatim>\<open>Init\<close> succeeded.
\<close>

lemma frame_simps:
  "plugins (record_scall sc w) = plugins w"
  "plugins (add_log m w) = plugins w"
  "plugins (record_call p c w) = plugins w"
  "gomaps (record_scall sc w) = gomaps w"
  "gomaps (add_log m w) = gomaps w"
  "gomaps (record_call p c w) = gomaps w"
  "infos (record_scall sc w) = infos w"
  "infos (add_log m w) = infos w"
  "infos (record_call p c w) = infos w"
  "next_info (record_scall sc w) = next_info w"
  "next_info (add_log m w) = next_info w"
  "next_info (record_call p c w) = next_info w"
  "insts (record_scall sc w) = insts w"
  "insts (add_log m w) = insts w"
  "GetPlugin k (record_scall sc w) = GetPlugin k w"
  "GetPlugin k (add_log m w) = GetPlugin k w"
  "GetPlugin k (record_call p c w) = GetPlugin k w"
  by (simp_all add: record_scall_def add_log_def record_call_def GetPlugin_def map_lookup_def)

lemma loadPlugin_enabled_origin:
  assumes "GetPlugin k (snd (loadPlugin plugin_Open json_Unmarshal pluginPath w)) = Some b"
    and "Enabled (infos (snd (loadPlugin plugin_Open json_Unmarshal pluginPath w)) b)"
  shows "(GetPlugin k w = Some b \<and> Enabled (infos w b))
       \<or> (b = next_info w
          \<and> (\<exists>p r c. plugin_Open pluginPath = GetPluginFn p
                \<and> fst (GetPlugin_impl (storage w) (scalls (storage w)) pluginPath) = Some r
                \<and> sEnabled r
                \<and> Config (infos (snd (loadPlugin plugin_Open json_Unmarshal pluginPath w)) b) = c
                \<and> pInit (insts w p) (calls (insts w p) @ [CSetConfig c]) = None))"
proof (cases "plugin_Open pluginPath")
  case (OpenError e)
  with assms show ?thesis
    by (simp add: loadPlugin_def GetPlugin_def map_lookup_def add_log_def)
next
  case (LookupError e)
  with assms show ?thesis
    by (simp add: loadPlugin_def)
next
  case WrongSignature
  with assms show ?thesis
    by (simp add: loadPlugin_def)
next
  case (GetPluginFn p)
  show ?thesis
  proof (cases "fst (GetPlugin_impl (storage w) (scalls (storage w)) pluginPath)")
    case None
    note l = loadPlugin_absent [where plugin_Open = plugin_Open
        and json_Unmarshal = json_Unmarshal, OF GetPluginFn None]
    from assms show ?thesis
      unfolding l
      by (cases "b = next_info w")
        (simp_all add: loaded_simps frame_simps split: if_splits)
  next
    case (Some r)
    show ?thesis
    proof (cases "sConfig r \<noteq> [] \<and> (\<exists>e. json_Unmarshal (sConfig r) = Inl e)")
      case True
      then obtain e where n: "sConfig r \<noteq> []" and e: "json_Unmarshal (sConfig r) = Inl e"
        by blast
      note l = loadPlugin_parse_failed [where plugin_Open = plugin_Open
          and json_Unmarshal = json_Unmarshal, OF GetPluginFn Some n e]
      from assms show ?thesis
        unfolding l by (simp add: frame_simps)
    next
      case False
      have "\<exists>d. if sConfig r \<noteq> [] then json_Unmarshal (sConfig r) = Inr d else d = None"
      proof (cases "sConfig r = []")
        case True
        then show ?thesis by simp
      next
        case nonempty: False
        with False obtain d' where "json_Unmarshal (sConfig r) = Inr d'"
          by (cases "json_Unmarshal (sConfig r)") auto
        with nonempty show ?thesis by auto
      qed
      then obtain d where d: "if sConfig r \<noteq> [] then json_Unmarshal (sConfig r) = Inr d
                              else d = None"
        by blast
      obtain c w1 where s: "store_config d (record_scall (SGetPlugin pluginPath) w) = (c, w1)"
        by (cases "store_config d (record_scall (SGetPlugin pluginPath) w)")
      note sf = store_config_frame [OF s]
      have k: "GetPlugin k w1 = GetPlugin k w" for k
        by (simp add: GetPlugin_def map_lookup_def sf record_scall_def)
      show ?thesis
      proof (cases "sEnabled r \<longrightarrow> pInit (insts w p) (calls (insts w p) @ [CSetConfig c]) = None")
        case True
        note l = loadPlugin_present [where plugin_Open = plugin_Open
            and json_Unmarshal = json_Unmarshal, OF GetPluginFn Some d s True]
        from assms True GetPluginFn Some show ?thesis
          unfolding l
          by (cases "b = next_info w")
            (simp_all add: loaded_simps sf k frame_simps split: if_splits)
      next
        case False
        then obtain e where en: "sEnabled r"
          and i: "pInit (insts w p) (calls (insts w p) @ [CSetConfig c]) = Some e"
          by auto
        note f = loadPlugin_init_failed [where plugin_Open = plugin_Open
            and json_Unmarshal = json_Unmarshal, OF GetPluginFn Some d s en i]
        from assms show ?thesis
          by (cases "b = next_info w")
            (simp_all add: f(2,3,5) GetPlugin_def map_lookup_def)
      qed
    qed
  qed
qed


text \<open>
  Claim C1 as stated fails. \<open>loadPlugin\<close> enters the record into the map before it
  writes to the storage, and a failed write is logged only (lines 154 to 159). Here the
  prior record is enabled, \<^verbatim>\<open>Init\<close> succeeds and the write fails: the module is
  registered with the flag set.
\<close>

theorem loadPlugin_enabled_unsaved_counterexample:
  "GetPlugin ''demo'' (snd (loadPlugin demo_open demo_json ''plugins/demo.so''
      (fresh_world demo_plugin stale_storage))) = Some 0
   \<and> Enabled (infos (snd (loadPlugin demo_open demo_json ''plugins/demo.so''
      (fresh_world demo_plugin stale_storage))) 0)
   \<and> SavePlugin_impl stale_storage [SGetPlugin ''plugins/demo.so''] ''demo''
        ''plugins/demo.so'' True None = Some ''disk full''
   \<and> logs (snd (loadPlugin demo_open demo_json ''plugins/demo.so''
      (fresh_world demo_plugin stale_storage)))
       = [LogSaveInfoFailed ''disk full'', LogLoaded ''demo'' ''1.0'']"
proof -
  let ?w = "fresh_world demo_plugin stale_storage"
  let ?r = "\<lparr>sName = ''demo'', sPath = ''plugins/demo.so'', sEnabled = True, sConfig = []\<rparr>"
  have h1: "demo_open ''plugins/demo.so'' = GetPluginFn 7"
    by (simp add: demo_open_def)
  have h2: "fst (GetPlugin_impl (storage ?w) (scalls (storage ?w)) ''plugins/demo.so'') = Some ?r"
    by (simp add: fresh_world_simps stale_storage_def)
  have h3: "sConfig ?r \<noteq> [] \<longrightarrow> demo_json (sConfig ?r) = Inr None"
    by simp
  have h4: "sEnabled ?r \<longrightarrow> pInit (insts ?w 7) (calls (insts ?w 7) @ [CSetConfig None]) = None"
    by (simp add: fresh_world_simps demo_plugin_simps)
  have l: "loadPlugin demo_open demo_json ''plugins/demo.so'' ?w
             = (None, loaded ''plugins/demo.so'' 7 None True
                        (record_scall (SGetPlugin ''plugins/demo.so'') ?w))"
    using loadPlugin_present_nil [where plugin_Open = demo_open and json_Unmarshal = demo_json,
        OF h1 h2 h3 h4] by simp
  show ?thesis
    unfolding l
    by (simp add: loaded_simps record_scall_def fresh_world_simps demo_plugin_simps
          stale_storage_def)
qed

text \<open>
  Claim C1, amended. \<^verbatim>\<open>EnablePlugin\<close> sets the flag of a record only when \<^verbatim>\<open>Init\<close>
  succeeded and the write to the storage succeeded, and sets the flag of no other
  record. After \<open>loadPlugin\<close> a record held enabled by the manager was held enabled
  before, or it is the new record, the prior record in the storage was enabled and
  \<^verbatim>\<open>Init\<close> succeeded after the configuration was applied; the write that follows does
  not decide the flag. \<^verbatim>\<open>DisablePlugin\<close> and \<^verbatim>\<open>UpdatePluginConfig\<close> set no flag, and
  \<^verbatim>\<open>Shutdown\<close> leaves the manager with an empty map.
\<close>

theorem enabled_only_after_Init:
  "(GetPlugin name w = Some a \<and> \<not> Enabled (infos w a)
      \<and> Enabled (infos (snd (EnablePlugin name w)) a)
    \<longrightarrow> pInit (insts w (Plugin (infos w a))) (calls (insts w (Plugin (infos w a)))) = None
      \<and> SavePlugin_impl (storage w) (scalls (storage w)) (Name (infos w a))
           (FilePath (infos w a)) True (Config (infos w a)) = None)
   \<and> (GetPlugin name w \<noteq> Some b \<and> Enabled (infos (snd (EnablePlugin name w)) b)
        \<longrightarrow> Enabled (infos w b))
   \<and> (GetPlugin k (snd (loadPlugin plugin_Open json_Unmarshal pluginPath w)) = Some b
        \<and> Enabled (infos (snd (loadPlugin plugin_Open json_Unmarshal pluginPath w)) b)
      \<longrightarrow> (GetPlugin k w = Some b \<and> Enabled (infos w b))
        \<or> (b = next_info w
           \<and> (\<exists>p r c. plugin_Open pluginPath = GetPluginFn p
                 \<and> fst (GetPlugin_impl (storage w) (scalls (storage w)) pluginPath) = Some r
                 \<and> sEnabled r
                 \<and> Config (infos (snd (loadPlugin plugin_Open json_Unmarshal pluginPath w)) b) = c
                 \<and> pInit (insts w p) (calls (insts w p) @ [CSetConfig c]) = None)))
   \<and> (Enabled (infos (snd (DisablePlugin name w)) b) \<longrightarrow> Enabled (infos w b))
   \<and> (Enabled (infos (snd (UpdatePluginConfig name config w)) b) \<longrightarrow> Enabled (infos w b))
   \<and> gomaps (Shutdown w) (plugins (Shutdown w)) = []"
proof -
  have 1: "GetPlugin name w = Some a \<and> \<not> Enabled (infos w a)
      \<and> Enabled (infos (snd (EnablePlugin name w)) a)
    \<longrightarrow> pInit (insts w (Plugin (infos w a))) (calls (insts w (Plugin (infos w a)))) = None
      \<and> SavePlugin_impl (storage w) (scalls (storage w)) (Name (infos w a))
           (FilePath (infos w a)) True (Config (infos w a)) = None"
    by (auto simp: EnablePlugin_infos split: if_splits)
  have 2: "GetPlugin name w \<noteq> Some b \<and> Enabled (infos (snd (EnablePlugin name w)) b)
        \<longrightarrow> Enabled (infos w b)"
    by (auto simp: EnablePlugin_infos split: option.splits if_splits)
  have 3: "GetPlugin k (snd (loadPlugin plugin_Open json_Unmarshal pluginPath w)) = Some b
        \<and> Enabled (infos (snd (loadPlugin plugin_Open json_Unmarshal pluginPath w)) b)
      \<longrightarrow> (GetPlugin k w = Some b \<and> Enabled (infos w b))
        \<or> (b = next_info w
           \<and> (\<exists>p r c. plugin_Open pluginPath = GetPluginFn p
                 \<and> fst (GetPlugin_impl (storage w) (scalls (storage w)) pluginPath) = Some r
                 \<and> sEnabled r
                 \<and> Config (infos (snd (loadPlugin plugin_Open json_Unmarshal pluginPath w)) b) = c
                 \<and> pInit (insts w p) (calls (insts w p) @ [CSetConfig c]) = None))"
    using loadPlugin_enabled_origin [of k plugin_Open json_Unmarshal pluginPath w b] by blast
  have 4: "Enabled (infos (snd (DisablePlugin name w)) b) \<longrightarrow> Enabled (infos w b)"
    by (auto simp: DisablePlugin_infos split: if_splits)
  have 5: "Enabled (infos (snd (UpdatePluginConfig name config w)) b) \<longrightarrow> Enabled (infos w b)"
    by (simp add: UpdatePluginConfig_Enabled)
  show ?thesis
    using 1 2 3 4 5 Shutdown_registry [of w] by blast
qed


theorem enabled_only_after_Init_witness:
  "GetPlugin ''demo'' (running_world False DefaultStorage) = Some 0
   \<and> \<not> Enabled (infos (running_world False DefaultStorage) 0)
   \<and> Enabled (infos (snd (EnablePlugin ''demo'' (running_world False DefaultStorage))) 0)
   \<and> pInit (insts (running_world False DefaultStorage) 7)
        (calls (insts (running_world False DefaultStorage) 7)) = None
   \<and> SavePlugin_impl (storage (running_world False DefaultStorage))
        (scalls (storage (running_world False DefaultStorage))) ''demo'' ''plugins/demo.so''
        True (Some 5) = None
   \<and> GetPlugin ''other'' (running_world True DefaultStorage) \<noteq> Some 0
   \<and> Enabled (infos (snd (EnablePlugin ''other'' (running_world True DefaultStorage))) 0)
   \<and> Enabled (infos (snd (DisablePlugin ''other'' (running_world True DefaultStorage))) 0)
   \<and> Enabled (infos (snd (UpdatePluginConfig ''demo'' None
        (running_world True DefaultStorage))) 0)
   \<and> Enabled (infos (running_world True DefaultStorage) 0)
   \<and> GetPlugin ''demo'' (snd (loadPlugin demo_open demo_json ''plugins/demo.so''
        (fresh_world demo_plugin stale_storage))) = Some 0
   \<and> Enabled (infos (snd (loadPlugin demo_open demo_json ''plugins/demo.so''
        (fresh_world demo_plugin stale_storage))) 0)
   \<and> GetPlugin ''demo'' (fresh_world demo_plugin stale_storage) \<noteq> Some 0
   \<and> sEnabled (the (fst (GetPlugin_impl (storage (fresh_world demo_plugin stale_storage))
        (scalls (storage (fresh_world demo_plugin stale_storage))) ''plugins/demo.so'')))"
proof -
  let ?off = "running_world False DefaultStorage"
  let ?on = "running_world True DefaultStorage"
  let ?w = "fresh_world demo_plugin stale_storage"
  let ?r = "\<lparr>sName = ''demo'', sPath = ''plugins/demo.so'', sEnabled = True, sConfig = []\<rparr>"
  have o: "GetPlugin ''other'' ?on = None"
    by (simp add: GetPlugin_def map_lookup_def running_world_simps)
  have e1: "GetPlugin ''demo'' ?off = Some 0 \<and> \<not> Enabled (infos ?off 0)
      \<and> Enabled (infos (snd (EnablePlugin ''demo'' ?off)) 0)"
    by (simp add: EnablePlugin_infos running_world_simps demo_plugin_simps DefaultStorage_def)
  have e2: "GetPlugin ''other'' ?on \<noteq> Some 0
      \<and> Enabled (infos (snd (EnablePlugin ''other'' ?on)) 0)"
    by (simp add: EnablePlugin_infos o running_world_simps)
  have d: "Enabled (infos (snd (DisablePlugin ''other'' ?on)) 0)"
    by (simp add: DisablePlugin_infos o running_world_simps)
  have u: "Enabled (infos (snd (UpdatePluginConfig ''demo'' None ?on)) 0)"
    by (simp add: UpdatePluginConfig_Enabled running_world_simps)
  have h1: "demo_open ''plugins/demo.so'' = GetPluginFn 7"
    by (simp add: demo_open_def)
  have h2: "fst (GetPlugin_impl (storage ?w) (scalls (storage ?w)) ''plugins/demo.so'') = Some ?r"
    by (simp add: fresh_world_simps stale_storage_def)
  have h3: "sConfig ?r \<noteq> [] \<longrightarrow> demo_json (sConfig ?r) = Inr None"
    by simp
  have h4: "sEnabled ?r \<longrightarrow> pInit (insts ?w 7) (calls (insts ?w 7) @ [CSetConfig None]) = None"
    by (simp add: fresh_world_simps demo_plugin_simps)
  have l: "GetPlugin ''demo'' (snd (loadPlugin demo_open demo_json ''plugins/demo.so'' ?w)) = Some 0
      \<and> Enabled (infos (snd (loadPlugin demo_open demo_json ''plugins/demo.so'' ?w)) 0)"
    by (simp add: loadPlugin_present_nil [where plugin_Open = demo_open
          and json_Unmarshal = demo_json, OF h1 h2 h3 h4]
        loaded_simps frame_simps fresh_world_simps demo_plugin_simps)
  note t1 = enabled_only_after_Init [of "''demo''" ?off 0 0 "''demo''" demo_open demo_json
      "''plugins/demo.so''" None]
  note t2 = enabled_only_after_Init [of "''other''" ?on 0 0 "''demo''" demo_open demo_json
      "''plugins/demo.so''" None]
  note t3 = enabled_only_after_Init [of "''demo''" ?on 0 0 "''demo''" demo_open demo_json
      "''plugins/demo.so''" None]
  note t4 = enabled_only_after_Init [of "''demo''" ?w 0 0 "''demo''" demo_open demo_json
      "''plugins/demo.so''" None]
  have c1: "pInit (insts ?off (Plugin (infos ?off 0))) (calls (insts ?off (Plugin (infos ?off 0))))
        = None
      \<and> SavePlugin_impl (storage ?off) (scalls (storage ?off)) (Name (infos ?off 0))
           (FilePath (infos ?off 0)) True (Config (infos ?off 0)) = None"
    using t1 e1 by blast
  have c2: "Enabled (infos ?on 0)"
    using t2 e2 d by blast
  have c3: "Enabled (infos ?on 0)"
    using t3 u by blast
  have c4: "GetPlugin ''demo'' ?w \<noteq> Some 0"
    by (simp add: fresh_world_simps)
  have c5: "sEnabled (the (fst (GetPlugin_impl (storage ?w) (scalls (storage ?w))
        ''plugins/demo.so'')))"
    using t4 l c4 by auto
  show ?thesis
    using e1 e2 d u l c1 c2 c4 c5
    by (simp add: running_world_simps)
qed


end
